theory Spec2Isabelle
  imports Main
begin

section \<open>Session store (app/core/session\_manager.py)\<close>

text \<open>
  Times are the values of \<open>datetime.now()\<close>, counted in microseconds, and the
  time-to-live is the \<open>timedelta\<close> built from \<open>session_ttl_hours\<close>, in the same
  unit. The compiled graph, the retriever and the raw data are values of types the
  store never inspects. The field \<open>documents\<close> of the session is named
  \<open>cached_documents\<close> here, since the graph state below has a field of that name.
\<close>

record ('g, 'r, 'b, 'd) VideoSession =
  session_id :: string
  video_id :: string
  video_title :: string
  channel_name :: string
  created_at :: int
  last_accessed :: int
  main_graph :: "'g option"
  cached_documents :: "'d list"
  bm25_retriever :: "'r option"
  raw_blobs :: "(string \<times> 'b) list"

record ('g, 'r, 'b, 'd) SessionManager =
  sessions :: "string \<rightharpoonup> ('g, 'r, 'b, 'd) VideoSession"
  session_ttl :: int

text \<open>\<open>SessionManager.__init__\<close>: an empty store and the time-to-live in microseconds.\<close>

definition init_manager :: "int \<Rightarrow> ('g, 'r, 'b, 'd) SessionManager" where
  "init_manager session_ttl_hours =
     \<lparr>sessions = Map.empty, session_ttl = session_ttl_hours * 3600000000\<rparr>"

text \<open>
  \<open>create_session\<close>: the identifier is the fresh UUID the caller draws; both time
  stamps are the clock value at construction.
\<close>

definition create_session ::
  "('g, 'r, 'b, 'd) SessionManager \<Rightarrow> string \<Rightarrow> string \<Rightarrow> string \<Rightarrow> string \<Rightarrow> int \<Rightarrow>
     string \<times> ('g, 'r, 'b, 'd) SessionManager" where
  "create_session mgr fresh_id vid title channel now =
     (fresh_id,
      mgr\<lparr>sessions := (sessions mgr)(fresh_id \<mapsto>
        \<lparr>session_id = fresh_id, video_id = vid, video_title = title, channel_name = channel,
         created_at = now, last_accessed = now, main_graph = None, cached_documents = [],
         bm25_retriever = None, raw_blobs = []\<rparr>)\<rparr>)"

definition delete_session ::
  "('g, 'r, 'b, 'd) SessionManager \<Rightarrow> string \<Rightarrow> ('g, 'r, 'b, 'd) SessionManager" where
  "delete_session mgr sid =
     (if sid \<in> dom (sessions mgr) then mgr\<lparr>sessions := (sessions mgr)(sid := None)\<rparr> else mgr)"

text \<open>
  \<open>get_session\<close> reads the clock twice: once for the expiry test (\<open>now\<close>) and once
  for the new last-access stamp (\<open>now'\<close>). It returns the session object it has just
  stamped, together with the store.
\<close>

definition get_session ::
  "('g, 'r, 'b, 'd) SessionManager \<Rightarrow> string \<Rightarrow> int \<Rightarrow> int \<Rightarrow>
     ('g, 'r, 'b, 'd) VideoSession option \<times> ('g, 'r, 'b, 'd) SessionManager" where
  "get_session mgr sid now now' =
     (case sessions mgr sid of
        None \<Rightarrow> (None, mgr)
      | Some session \<Rightarrow>
          if now - last_accessed session > session_ttl mgr
          then (None, delete_session mgr sid)
          else (Some (session\<lparr>last_accessed := now'\<rparr>),
                mgr\<lparr>sessions := (sessions mgr)(sid \<mapsto> session\<lparr>last_accessed := now'\<rparr>)\<rparr>))"

text \<open>
  \<open>update_session\<close>: each artifact is stored only when the argument is not \<open>None\<close>;
  the last-access stamp is always set. There is no expiry test.
\<close>

definition update_session ::
  "('g, 'r, 'b, 'd) SessionManager \<Rightarrow> string \<Rightarrow> 'g option \<Rightarrow> 'd list option \<Rightarrow> 'r option \<Rightarrow>
     (string \<times> 'b) list option \<Rightarrow> int \<Rightarrow> ('g, 'r, 'b, 'd) SessionManager" where
  "update_session mgr sid mg docs bm blobs now =
     (case sessions mgr sid of
        None \<Rightarrow> mgr
      | Some session \<Rightarrow>
          let s1 = (case mg of None \<Rightarrow> session | Some g \<Rightarrow> session\<lparr>main_graph := Some g\<rparr>);
              s2 = (case docs of None \<Rightarrow> s1 | Some d \<Rightarrow> s1\<lparr>cached_documents := d\<rparr>);
              s3 = (case bm of None \<Rightarrow> s2 | Some r \<Rightarrow> s2\<lparr>bm25_retriever := Some r\<rparr>);
              s4 = (case blobs of None \<Rightarrow> s3 | Some b \<Rightarrow> s3\<lparr>raw_blobs := b\<rparr>)
          in mgr\<lparr>sessions := (sessions mgr)(sid \<mapsto> s4\<lparr>last_accessed := now\<rparr>)\<rparr>)"

text \<open>\<open>cleanup_expired_sessions\<close>: one clock value, every lapsed entry removed.\<close>

definition cleanup_expired_sessions ::
  "('g, 'r, 'b, 'd) SessionManager \<Rightarrow> int \<Rightarrow> ('g, 'r, 'b, 'd) SessionManager" where
  "cleanup_expired_sessions mgr now =
     mgr\<lparr>sessions := (\<lambda>sid. case sessions mgr sid of
                                 None \<Rightarrow> None
                               | Some session \<Rightarrow>
                                   if now - last_accessed session > session_ttl mgr
                                   then None else Some session)\<rparr>"

section \<open>Graph state (app/core/state.py)\<close>

text \<open>
  Every message the source creates is a \<open>HumanMessage\<close> with a content and an
  optional name. The three state dictionaries (\<open>ResearchTeamState\<close>,
  \<open>SentimentState\<close>, \<open>SuperState\<close>) have the same keys up to \<open>team_members\<close>,
  and a key may be absent; \<open>next\<close> is written \<open>nxt\<close>.
\<close>

datatype message = HumanMessage (content: string) (name: "string option")

datatype document = Document (page_content: string) (metadata: "(string \<times> string) list")

record graph_state =
  messages :: "message list"
  documents :: "document list option"
  team_members :: "string option"
  nxt :: "string option"

text \<open>
  What a node returns, and what a graph is invoked with: a dictionary holding some of
  the keys. An absent \<open>messages\<close> key and an empty list add the same to the log.
\<close>

record update =
  upd_messages :: "message list"
  upd_documents :: "document list option"
  upd_team_members :: "string option"
  upd_next :: "string option"

definition empty_state :: graph_state where
  "empty_state = \<lparr>messages = [], documents = None, team_members = None, nxt = None\<rparr>"

text \<open>
  The state classes annotate \<open>messages\<close> with \<open>operator.add\<close>, so an update is
  appended to the log; the other keys carry no reducer, so a key present in the update
  overwrites the value and an absent key leaves it alone.
\<close>

definition apply_update :: "graph_state \<Rightarrow> update \<Rightarrow> graph_state" where
  "apply_update st u =
     \<lparr>messages = messages st @ upd_messages u,
      documents = (case upd_documents u of None \<Rightarrow> documents st | Some d \<Rightarrow> Some d),
      team_members = (case upd_team_members u of None \<Rightarrow> team_members st | Some t \<Rightarrow> Some t),
      nxt = (case upd_next u of None \<Rightarrow> nxt st | Some n \<Rightarrow> Some n)\<rparr>"

section \<open>Errors\<close>

text \<open>
  The exceptions a turn can end with: a list index out of range, a missing dictionary
  key, a membership test on \<open>None\<close>, the two errors of the graph engine (a node
  returned something that is no dictionary; the step limit was reached), and any failure
  of an external capability (language model, tool, network) with its text.
\<close>

datatype error =
    IndexError
  | KeyError string
  | TypeError
  | InvalidUpdateError
  | GraphRecursionError
  | ExternalError string

section \<open>Agent nodes (app/agents/agent\_factory.py)\<close>

text \<open>
  \<open>create_agent\<close> returns an \<open>AgentExecutor\<close> built with
  \<open>return_intermediate_steps=True\<close>. What the executor computes from a state (the turns
  of the language model and the tool calls) is external: the final output (the key
  \<open>output\<close>, here \<open>agent_output\<close>) and the intermediate steps, or a failure. Of an
  intermediate step only the observation is read: a dictionary, with or without a
  \<open>documents\<close> key, or another value.
\<close>

datatype observation = ObsDict "document list option" | ObsOther

record executor_output =
  agent_output :: string
  intermediate_steps :: "observation list"

type_synonym agent = "graph_state \<Rightarrow> error + executor_output"

text \<open>
  \<open>agent.invoke(state)\<close>: the executor hands back its input dictionary merged with its
  outputs. The outputs have the keys \<open>output\<close> and \<open>intermediate_steps\<close>, none of
  which is a key of the state, so the result carries every key of the state unchanged.
\<close>

record agent_result =
  result_state :: graph_state
  result_outputs :: executor_output

definition agent_invoke :: "agent \<Rightarrow> graph_state \<Rightarrow> error + agent_result" where
  "agent_invoke agent state =
     (case agent state of
        Inl e \<Rightarrow> Inl e
      | Inr out \<Rightarrow> Inr \<lparr>result_state = state, result_outputs = out\<rparr>)"

definition agent_node :: "graph_state \<Rightarrow> agent \<Rightarrow> string \<Rightarrow> error + update" where
  "agent_node state agent nm =
     (case agent_invoke agent state of
        Inl e \<Rightarrow> Inl e
      | Inr result \<Rightarrow>
          Inr \<lparr>upd_messages = [HumanMessage (agent_output (result_outputs result)) (Some nm)],
               upd_documents = Some (case documents (result_state result) of
                                       None \<Rightarrow> [] | Some d \<Rightarrow> d),
               upd_team_members = None, upd_next = None\<rparr>)"

text \<open>The loop over the intermediate steps keeps the documents of the last observation that has some.\<close>

fun scan_steps :: "document list \<Rightarrow> observation list \<Rightarrow> document list" where
  "scan_steps docs [] = docs"
| "scan_steps docs (ObsDict (Some d) # rest) = scan_steps d rest"
| "scan_steps docs (_ # rest) = scan_steps docs rest"

definition agent_node_with_docs :: "graph_state \<Rightarrow> agent \<Rightarrow> string \<Rightarrow> error + update" where
  "agent_node_with_docs state agent nm =
     (case agent_invoke agent state of
        Inl e \<Rightarrow> Inl e
      | Inr result \<Rightarrow>
          let docs = (if nm = ''CommentFinder''
                      then scan_steps [] (intermediate_steps (result_outputs result))
                      else [])
          in Inr \<lparr>upd_messages = [HumanMessage (agent_output (result_outputs result)) (Some nm)],
                  upd_documents = Some (if docs \<noteq> [] then docs
                                        else (case documents state of None \<Rightarrow> [] | Some d \<Rightarrow> d)),
                  upd_team_members = None, upd_next = None\<rparr>)"

section \<open>Supervisors (app/agents/supervisor.py)\<close>

text \<open>
  The prompt, the language model bound to the \<open>route\<close> function and the tool parser
  are one external step from the state to a list of tool calls, each with an optional
  \<open>args\<close> dictionary. \<open>extract_next\<close> returns the arguments of the first call, or
  the output itself when the list is empty.
\<close>

datatype tool_call = ToolCall (tc_type: string) (tc_args: "(string \<times> string) list option")

type_synonym router_llm = "graph_state \<Rightarrow> error + tool_call list"

datatype router_output = Args "(string \<times> string) list" | Raw "tool_call list"

definition extract_next :: "tool_call list \<Rightarrow> router_output" where
  "extract_next out =
     (if length out > 0
      then Args (case tc_args (hd out) of None \<Rightarrow> [] | Some a \<Rightarrow> a)
      else Raw out)"

text \<open>
  The supervisor as a graph node. The member list only enters the prompt and the
  function schema, which the language model is free to disregard. Of the returned
  dictionary the key \<open>next\<close> is a key of the state; a returned list is no update, and
  the engine rejects it.
\<close>

definition create_team_supervisor :: "router_llm \<Rightarrow> string list \<Rightarrow> graph_state \<Rightarrow> error + update" where
  "create_team_supervisor llm members state =
     (case llm state of
        Inl e \<Rightarrow> Inl e
      | Inr out \<Rightarrow>
          (case extract_next out of
             Args a \<Rightarrow> Inr \<lparr>upd_messages = [], upd_documents = None, upd_team_members = None,
                             upd_next = map_of a ''next''\<rparr>
           | Raw _ \<Rightarrow> Inl InvalidUpdateError))"

section \<open>The graph engine\<close>

text \<open>
  What the builders hand to the graph library: named nodes, fixed edges, one conditional
  edge whose routing function is \<open>lambda x: x["next"]\<close> with its mapping from names to
  targets, and the entry point.
\<close>

datatype target = Node string | END

record graph =
  nodes :: "(string \<times> (graph_state \<Rightarrow> error + update)) list"
  edges :: "(string \<times> string) list"
  conditional_source :: string
  path_map :: "(string \<times> target) list"
  entry_point :: string

text \<open>
  Where the run goes after a node: out of the conditional source, the value of
  \<open>next\<close> is looked up in the mapping, and both the read of \<open>next\<close> and the lookup
  are dictionary accesses that fail on a missing key; out of any other node, along its
  fixed edge.
\<close>

definition route :: "graph \<Rightarrow> string \<Rightarrow> graph_state \<Rightarrow> error + target" where
  "route g cur st =
     (if cur = conditional_source g
      then (case nxt st of
              None \<Rightarrow> Inl (KeyError ''next'')
            | Some n \<Rightarrow> (case map_of (path_map g) n of
                           None \<Rightarrow> Inl (KeyError n)
                         | Some t \<Rightarrow> Inr t))
      else (case map_of (edges g) cur of None \<Rightarrow> Inr END | Some n \<Rightarrow> Inr (Node n)))"

text \<open>
  One step: run the node, fold its update into the state, then find the next node. A
  node that fails leaves nothing behind. When the node returns, its update is part of
  the state and of the stream before the routing is evaluated, so a routing that fails
  ends the run after the step.
\<close>

definition step :: "graph \<Rightarrow> string \<Rightarrow> graph_state \<Rightarrow>
                      error + (update \<times> graph_state \<times> (error + target))" where
  "step g cur st =
     (case map_of (nodes g) cur of
        None \<Rightarrow> Inl (KeyError cur)
      | Some f \<Rightarrow>
          (case f st of
             Inl e \<Rightarrow> Inl e
           | Inr u \<Rightarrow> Inr (u, apply_update st u, route g cur (apply_update st u))))"

text \<open>
  A run executes steps until the target is \<open>END\<close>. The first argument is the number
  of steps the engine still allows (its recursion limit); when none is left the run ends
  with the engine's recursion error. The run returns the steps that were streamed, each
  as node name and update, and the final state or the error.
\<close>

fun run :: "nat \<Rightarrow> graph \<Rightarrow> string \<Rightarrow> graph_state \<Rightarrow>
              (string \<times> update) list \<times> (error + graph_state)" where
  "run 0 g cur st = ([], Inl GraphRecursionError)"
| "run (Suc k) g cur st =
     (case step g cur st of
        Inl e \<Rightarrow> ([], Inl e)
      | Inr (u, st', r) \<Rightarrow>
          (case r of
             Inl e \<Rightarrow> ([(cur, u)], Inl e)
           | Inr END \<Rightarrow> ([(cur, u)], Inr st')
           | Inr (Node n) \<Rightarrow> (case run k g n st' of (evs, res) \<Rightarrow> ((cur, u) # evs, res))))"

text \<open>Invoking a compiled graph without memory: the input is folded into an empty state.\<close>

definition invoke :: "nat \<Rightarrow> graph \<Rightarrow> update \<Rightarrow> error + graph_state" where
  "invoke limit g inp = snd (run limit g (entry_point g) (apply_update empty_state inp))"

text \<open>
  With the \<open>MemorySaver\<close> checkpointer the input is folded into the state saved for the
  thread, and the run starts again at the entry point.
\<close>

definition invoke_thread :: "nat \<Rightarrow> graph \<Rightarrow> graph_state \<Rightarrow> update \<Rightarrow>
                               (string \<times> update) list \<times> (error + graph_state)" where
  "invoke_thread limit g checkpoint inp = run limit g (entry_point g) (apply_update checkpoint inp)"

section \<open>Research team (app/graphs/research\_graph.py)\<close>

text \<open>
  The builders take the agent executors (which the source creates from the language
  model, the tools and the prompt) and the routing step of the supervisor.
\<close>

definition build_research_graph :: "agent \<Rightarrow> agent \<Rightarrow> router_llm \<Rightarrow> graph" where
  "build_research_graph search_agent research_agent research_llm =
     \<lparr>nodes = [(''VideoSearch'', \<lambda>state. agent_node state search_agent ''VideoSearch''),
               (''CommentFinder'', \<lambda>state. agent_node_with_docs state research_agent ''CommentFinder''),
               (''ResearchSupervisor'',
                  create_team_supervisor research_llm [''VideoSearch'', ''CommentFinder''])],
      edges = [(''VideoSearch'', ''ResearchSupervisor''), (''CommentFinder'', ''ResearchSupervisor'')],
      conditional_source = ''ResearchSupervisor'',
      path_map = [(''VideoSearch'', Node ''VideoSearch''), (''CommentFinder'', Node ''CommentFinder''),
                  (''FINISH'', END)],
      entry_point = ''ResearchSupervisor''\<rparr>"

definition enter_research_chain :: "string \<Rightarrow> update" where
  "enter_research_chain msg =
     \<lparr>upd_messages = [HumanMessage msg None], upd_documents = None,
      upd_team_members = None, upd_next = None\<rparr>"

text \<open>The dictionary returned has the keys \<open>messages\<close> and \<open>documents\<close> only.\<close>

definition research_chain_with_docs :: "nat \<Rightarrow> graph \<Rightarrow> update \<Rightarrow> error + graph_state" where
  "research_chain_with_docs limit compiled_research_graph state =
     (case invoke limit compiled_research_graph state of
        Inl e \<Rightarrow> Inl e
      | Inr result \<Rightarrow>
          Inr \<lparr>messages = messages result,
               documents = Some (case documents result of
                                   Some d \<Rightarrow> d
                                 | None \<Rightarrow> (case upd_documents state of None \<Rightarrow> [] | Some d \<Rightarrow> d)),
               team_members = None, nxt = None\<rparr>)"

definition create_research_chain :: "nat \<Rightarrow> graph \<Rightarrow> string \<Rightarrow> error + graph_state" where
  "create_research_chain limit compiled_research_graph msg =
     research_chain_with_docs limit compiled_research_graph (enter_research_chain msg)"

section \<open>Analysis team (app/graphs/analysis\_graph.py)\<close>

definition build_analysis_graph :: "agent \<Rightarrow> agent \<Rightarrow> router_llm \<Rightarrow> graph" where
  "build_analysis_graph topic_agent sentiment_agent analysis_llm =
     \<lparr>nodes = [(''Topic'', \<lambda>state. agent_node state topic_agent ''Topic''),
               (''Sentiment'', \<lambda>state. agent_node state sentiment_agent ''Sentiment''),
               (''AnalysisSupervisor'', create_team_supervisor analysis_llm [''Topic'', ''Sentiment''])],
      edges = [(''Topic'', ''AnalysisSupervisor''), (''Sentiment'', ''AnalysisSupervisor'')],
      conditional_source = ''AnalysisSupervisor'',
      path_map = [(''Topic'', Node ''Topic''), (''Sentiment'', Node ''Sentiment''), (''FINISH'', END)],
      entry_point = ''AnalysisSupervisor''\<rparr>"

text \<open>The dictionary the main graph passes to the analysis chain.\<close>

record chain_input =
  message :: string
  input_documents :: "document list option"

definition enter_sentiment_chain :: "chain_input \<Rightarrow> update" where
  "enter_sentiment_chain state =
     \<lparr>upd_messages = [HumanMessage (message state) None],
      upd_documents = Some (case input_documents state of None \<Rightarrow> [] | Some d \<Rightarrow> d),
      upd_team_members = Some ''Topic, Sentiment'',
      upd_next = None\<rparr>"

definition create_analysis_chain :: "nat \<Rightarrow> graph \<Rightarrow> chain_input \<Rightarrow> error + graph_state" where
  "create_analysis_chain limit compiled_sentiment_graph state =
     invoke limit compiled_sentiment_graph (enter_sentiment_chain state)"

section \<open>Main graph (app/graphs/main\_graph.py)\<close>

definition get_last_message :: "graph_state \<Rightarrow> error + string" where
  "get_last_message state =
     (if messages state = [] then Inl IndexError else Inr (content (last (messages state))))"

definition join_graph :: "graph_state \<Rightarrow> error + update" where
  "join_graph response =
     (if messages response = [] then Inl IndexError
      else Inr \<lparr>upd_messages = [last (messages response)],
                upd_documents = (case documents response of
                                   None \<Rightarrow> None
                                 | Some d \<Rightarrow> if d \<noteq> [] then Some d else None),
                upd_team_members = None, upd_next = None\<rparr>)"

definition get_messages_and_documents ::
  "(chain_input \<Rightarrow> error + graph_state) \<Rightarrow> graph_state \<Rightarrow> error + update" where
  "get_messages_and_documents analysis_chain state =
     (if messages state = [] then Inl IndexError
      else (case analysis_chain
                   \<lparr>message = content (last (messages state)),
                    input_documents = Some (case documents state of None \<Rightarrow> [] | Some d \<Rightarrow> d)\<rparr> of
              Inl e \<Rightarrow> Inl e
            | Inr result \<Rightarrow> join_graph result))"

text \<open>The node \<open>get_last_message | research_chain | join_graph\<close>.\<close>

definition research_team_node ::
  "(string \<Rightarrow> error + graph_state) \<Rightarrow> graph_state \<Rightarrow> error + update" where
  "research_team_node research_chain state =
     (case get_last_message state of
        Inl e \<Rightarrow> Inl e
      | Inr msg \<Rightarrow> (case research_chain msg of Inl e \<Rightarrow> Inl e | Inr response \<Rightarrow> join_graph response))"

definition build_main_graph ::
  "router_llm \<Rightarrow> (string \<Rightarrow> error + graph_state) \<Rightarrow> (chain_input \<Rightarrow> error + graph_state) \<Rightarrow> graph" where
  "build_main_graph super_llm research_chain analysis_chain =
     \<lparr>nodes = [(''Research team'', research_team_node research_chain),
               (''Analysis team'', get_messages_and_documents analysis_chain),
               (''SuperSupervisor'', create_team_supervisor super_llm [''Research team'', ''Analysis team''])],
      edges = [(''Research team'', ''SuperSupervisor''), (''Analysis team'', ''SuperSupervisor'')],
      conditional_source = ''SuperSupervisor'',
      path_map = [(''Analysis team'', Node ''Analysis team''), (''Research team'', Node ''Research team''),
                  (''FINISH'', END)],
      entry_point = ''SuperSupervisor''\<rparr>"

section \<open>Execution driver (app/api/routes.py, app/utils/helpers.py)\<close>

text \<open>
  What the graph engine and the interpreter contribute to a turn besides their
  semantics: the step limit in force, the texts of the engine's two exceptions and the
  text of the interpreter's type error.
\<close>

record engine =
  recursion_limit :: nat
  recursion_message :: string
  invalid_update_message :: string
  type_error_message :: string

text \<open>
  \<open>repr\<close> of a string: single quotes, or double quotes when the string has a single
  quote and no double quote; the quote in use and the backslash are escaped, tab, line
  feed and carriage return are written as a backslash and \<open>t\<close>, \<open>n\<close>, \<open>r\<close>, and
  the other control characters as a backslash, \<open>x\<close> and two hexadecimal digits. Characters beyond ASCII are taken to be printable.
\<close>

definition hex_digit :: "nat \<Rightarrow> char" where
  "hex_digit n = ''0123456789abcdef'' ! (n mod 16)"

definition repr_char :: "char \<Rightarrow> char \<Rightarrow> string" where
  "repr_char q c =
     (if c = q \<or> c = CHR 0x5C then [CHR 0x5C, c]
      else if c = CHR 0x09 then [CHR 0x5C, CHR ''t'']
      else if c = CHR 0x0A then [CHR 0x5C, CHR ''n'']
      else if c = CHR 0x0D then [CHR 0x5C, CHR ''r'']
      else if (of_char c :: nat) < 32 \<or> c = CHR 0x7F
        then [CHR 0x5C, CHR ''x'', hex_digit (of_char c div 16), hex_digit (of_char c)]
      else [c])"

definition py_repr :: "string \<Rightarrow> string" where
  "py_repr s =
     (let q = (if CHR 0x27 \<in> set s \<and> CHR 0x22 \<notin> set s then CHR 0x22 else CHR 0x27)
      in q # concat (map (repr_char q) s) @ [q])"

text \<open>\<open>str(e)\<close> of the exception that ends a turn; for a \<open>KeyError\<close> it is the \<open>repr\<close> of the key.\<close>

definition str_of :: "engine \<Rightarrow> error \<Rightarrow> string" where
  "str_of eng e =
     (case e of
        IndexError \<Rightarrow> ''list index out of range''
      | KeyError k \<Rightarrow> py_repr k
      | TypeError \<Rightarrow> type_error_message eng
      | InvalidUpdateError \<Rightarrow> invalid_update_message eng
      | GraphRecursionError \<Rightarrow> recursion_message eng
      | ExternalError t \<Rightarrow> t)"

text \<open>The streamed records; the last argument of a record is its session identifier.\<close>

datatype event =
    Progress string
  | ErrorEvent string
  | AgentMessage "string option" string string string
  | Final string "(string \<times> (string \<times> string) list) list option" string

definition format_progress_message :: "string \<Rightarrow> event" where
  "format_progress_message c = Progress c"

definition format_error_message :: "string \<Rightarrow> event" where
  "format_error_message err = ErrorEvent err"

definition format_final_response :: "string \<Rightarrow> document list \<Rightarrow> string \<Rightarrow> event" where
  "format_final_response c docs sid =
     Final c (if docs \<noteq> [] then Some (map (\<lambda>doc. (page_content doc, metadata doc)) docs) else None) sid"

text \<open>
  For a node whose update holds no key the engine streams \<open>None\<close> in place of the
  update.
\<close>

definition is_empty_update :: "update \<Rightarrow> bool" where
  "is_empty_update u \<longleftrightarrow>
     upd_messages u = [] \<and> upd_documents u = None \<and> upd_team_members u = None \<and> upd_next u = None"

text \<open>
  The loop over the streamed steps: one record for each step whose update carries
  messages (the name and the content of the update's last message, the session and the
  node). The test \<open>"messages" in state_update\<close> raises a type error on \<open>None\<close>, which
  ends the loop.
\<close>

fun agent_events :: "string \<Rightarrow> (string \<times> update) list \<Rightarrow> event list \<times> error option" where
  "agent_events sid [] = ([], None)"
| "agent_events sid ((node_name, state_update) # rest) =
     (if is_empty_update state_update then ([], Some TypeError)
      else (case agent_events sid rest of
              (evs, e) \<Rightarrow>
                ((if upd_messages state_update \<noteq> []
                  then [AgentMessage (name (last (upd_messages state_update)))
                                     (content (last (upd_messages state_update))) sid node_name]
                  else []) @ evs, e)))"

text \<open>The handler \<open>except Exception as e\<close> of the driver.\<close>

definition error_event :: "engine \<Rightarrow> error \<Rightarrow> event" where
  "error_event eng e = format_error_message (''Error during analysis: '' @ str_of eng e)"

text \<open>
  Steps 7 and 8 of \<open>analyze_video_stream\<close>: the graph is streamed on the session's
  thread with the question as input, and then invoked once more on the same thread with
  the same input to obtain the final state. The result is the records sent and, when the
  turn completes, the state the thread holds afterwards.
\<close>

definition execute_turn :: "engine \<Rightarrow> graph \<Rightarrow> graph_state \<Rightarrow> string \<Rightarrow> string \<Rightarrow>
                              event list \<times> (error + graph_state)" where
  "execute_turn eng compiled_main_graph checkpoint question sid =
     (let initial_state = \<lparr>upd_messages = [HumanMessage question None], upd_documents = None,
                            upd_team_members = None, upd_next = None\<rparr>;
          starting = format_progress_message ''Starting analysis...''
      in case invoke_thread (recursion_limit eng) compiled_main_graph checkpoint initial_state of
           (steps, r) \<Rightarrow>
             (case agent_events sid steps of
                (evs, Some e) \<Rightarrow> (starting # evs @ [error_event eng e], Inl e)
              | (evs, None) \<Rightarrow>
                  (case r of
                     Inl e \<Rightarrow> (starting # evs @ [error_event eng e], Inl e)
                   | Inr streamed \<Rightarrow>
                       (case invoke_thread (recursion_limit eng) compiled_main_graph streamed
                               initial_state of
                          (_, Inl e) \<Rightarrow> (starting # evs @ [error_event eng e], Inl e)
                        | (_, Inr final_state) \<Rightarrow>
                            (starting # evs @
                               [if messages final_state \<noteq> []
                                then format_final_response (content (last (messages final_state)))
                                       (case documents final_state of None \<Rightarrow> [] | Some d \<Rightarrow> d) sid
                                else format_error_message ''No response generated''],
                             Inr final_state)))))"

text \<open>
  Step 6 of \<open>analyze_video_stream\<close>: the two team graphs, their chains and the main
  graph, from the agent executors and the routing steps of the three supervisors.
\<close>

record components =
  search_agent :: agent
  research_agent :: agent
  topic_agent :: agent
  sentiment_agent :: agent
  research_llm :: router_llm
  analysis_llm :: router_llm
  super_llm :: router_llm

definition compiled_research_graph :: "components \<Rightarrow> graph" where
  "compiled_research_graph c = build_research_graph (search_agent c) (research_agent c) (research_llm c)"

definition compiled_analysis_graph :: "components \<Rightarrow> graph" where
  "compiled_analysis_graph c = build_analysis_graph (topic_agent c) (sentiment_agent c) (analysis_llm c)"

definition main_graph_of :: "engine \<Rightarrow> components \<Rightarrow> graph" where
  "main_graph_of eng c =
     build_main_graph (super_llm c)
       (create_research_chain (recursion_limit eng) (compiled_research_graph c))
       (create_analysis_chain (recursion_limit eng) (compiled_analysis_graph c))"

section \<open>Properties of runs\<close>

text \<open>
  A graph in which every fixed edge leads to the conditional source, every other node
  has a fixed edge, and the mapping names the end only under \<open>FINISH\<close>.
\<close>

definition hub_graph :: "graph \<Rightarrow> bool" where
  "hub_graph g \<longleftrightarrow>
     (\<forall>(s, t) \<in> set (edges g). t = conditional_source g)
     \<and> (\<forall>(s, f) \<in> set (nodes g). s = conditional_source g \<or> s \<in> fst ` set (edges g))
     \<and> (\<forall>(n, t) \<in> set (path_map g). t = END \<longrightarrow> n = ''FINISH'')"

text \<open>Of any two nodes visited one after the other, one is the router \<open>r\<close>.\<close>

fun via_router :: "string \<Rightarrow> string list \<Rightarrow> bool" where
  "via_router r (a # b # rest) = ((a = r \<or> b = r) \<and> via_router r (b # rest))"
| "via_router r _ = True"

section \<open>Concrete inputs\<close>

text \<open>A store holding one session created at time 0 under the default 24 hours.\<close>

definition demo_manager :: "(unit, unit, unit, unit) SessionManager" where
  "demo_manager = snd (create_session (init_manager 24) ''s1'' ''vid'' ''title'' ''chan'' 0)"

definition demo_session :: "(unit, unit, unit, unit) VideoSession" where
  "demo_session = \<lparr>session_id = ''s1'', video_id = ''vid'', video_title = ''title'',
     channel_name = ''chan'', created_at = 0, last_accessed = 0, main_graph = None,
     cached_documents = [], bm25_retriever = None, raw_blobs = []\<rparr>"

text \<open>A document, and a system-level state after one Research-team run.\<close>

definition demo_doc :: document where
  "demo_doc = Document ''great video'' [(''type'', ''comment'')]"

definition demo_outer :: graph_state where
  "demo_outer = \<lparr>messages = [HumanMessage ''What is the sentiment?'' None,
                               HumanMessage ''Found one comment.'' (Some ''CommentFinder'')],
                  documents = Some [demo_doc], team_members = None, nxt = Some ''FINISH''\<rparr>"

text \<open>An executor that answers with the given text and takes no intermediate step.\<close>

definition plain_agent :: "string \<Rightarrow> agent" where
  "plain_agent txt = (\<lambda>state. Inr \<lparr>agent_output = txt, intermediate_steps = []\<rparr>)"

text \<open>A router that always names \<open>n\<close>.\<close>

definition route_to :: "string \<Rightarrow> tool_call list" where
  "route_to n = [ToolCall ''route'' (Some [(''next'', n)])]"

definition always :: "string \<Rightarrow> router_llm" where
  "always n = (\<lambda>state. Inr (route_to n))"

text \<open>A router that names a member while the log has one message, and then \<open>FINISH\<close>.\<close>

definition once_then_finish :: "string \<Rightarrow> router_llm" where
  "once_then_finish member =
     (\<lambda>state. Inr (route_to (if length (messages state) \<le> 1 then member else ''FINISH'')))"

text \<open>A system whose three supervisors are the given routers and whose agents are plain.\<close>

definition demo_components :: "router_llm \<Rightarrow> router_llm \<Rightarrow> router_llm \<Rightarrow> components" where
  "demo_components r a s =
     \<lparr>search_agent = plain_agent ''search result'', research_agent = plain_agent ''comments'',
      topic_agent = plain_agent ''topics'', sentiment_agent = plain_agent ''positive'',
      research_llm = r, analysis_llm = a, super_llm = s\<rparr>"

text \<open>The Analysis team's state once entered from that state and routed to the sentiment agent.\<close>

definition demo_team_state :: graph_state where
  "demo_team_state = \<lparr>messages = [HumanMessage ''Found one comment.'' None],
                       documents = Some [demo_doc], team_members = Some ''Topic, Sentiment'',
                       nxt = Some ''Sentiment''\<rparr>"


definition finishing_system :: "engine \<Rightarrow> graph" where
  "finishing_system eng =
     main_graph_of eng (demo_components (always ''FINISH'') (always ''FINISH'') (always ''FINISH''))"



section \<open>Properties of the session store\<close>

lemma update_session_last_accessed:
  assumes "sessions mgr sid = Some s"
  shows "\<exists>s'. sessions (update_session mgr sid mg docs bm blobs now) sid = Some s'
              \<and> last_accessed s' = now
              \<and> session_id s' = session_id s \<and> video_id s' = video_id s"
  using assms
  by (simp add: update_session_def Let_def split: option.splits)

lemma update_session_ttl:
  "session_ttl (update_session mgr sid mg docs bm blobs now) = session_ttl mgr"
  by (simp add: update_session_def Let_def split: option.splits)

text \<open>
  C4. For a session in the store: a \<open>get\<close> called more than the time-to-live after
  the session's last access returns not-found and removes the session; a \<open>get\<close>
  within the time-to-live returns the session with its last-access time set to the
  current clock value and stores it so; hence whenever \<open>get\<close> returns a session,
  that session's time-to-live had not lapsed at the call.
\<close>

theorem get_session_sliding_expiry:
  assumes "sessions mgr sid = Some s"
  shows "(now - last_accessed s > session_ttl mgr \<longrightarrow>
            fst (get_session mgr sid now now') = None
            \<and> sessions (snd (get_session mgr sid now now')) sid = None)
       \<and> (now - last_accessed s \<le> session_ttl mgr \<longrightarrow>
            fst (get_session mgr sid now now') = Some (s\<lparr>last_accessed := now'\<rparr>)
            \<and> sessions (snd (get_session mgr sid now now')) sid
                = Some (s\<lparr>last_accessed := now'\<rparr>))
       \<and> (\<forall>r. fst (get_session mgr sid now now') = Some r \<longrightarrow>
            now - last_accessed s \<le> session_ttl mgr)"
  using assms
  by (auto simp: get_session_def delete_session_def)

lemma demo_manager_lookup: "sessions demo_manager ''s1'' = Some demo_session"
  by (simp add: demo_manager_def demo_session_def create_session_def init_manager_def)

lemma demo_manager_ttl: "session_ttl demo_manager = 86400000000"
  by (simp add: demo_manager_def create_session_def init_manager_def)

theorem get_session_sliding_expiry_witness:
  "sessions demo_manager ''s1'' = Some demo_session
   \<and> fst (get_session demo_manager ''s1'' 86400000001 86400000002) = None
   \<and> sessions (snd (get_session demo_manager ''s1'' 86400000001 86400000002)) ''s1'' = None
   \<and> fst (get_session demo_manager ''s1'' 86400000000 86400000005)
       = Some (demo_session\<lparr>last_accessed := 86400000005\<rparr>)"
  using get_session_sliding_expiry [OF demo_manager_lookup, of 86400000001 86400000002]
        get_session_sliding_expiry [OF demo_manager_lookup, of 86400000000 86400000005]
  by (simp add: demo_manager_lookup demo_manager_ttl demo_session_def)

text \<open>
  C10. \<open>update\<close> leaves the store unchanged for an identifier that is not present.
  For a session in the map it makes no expiry test: whatever the session's last access,
  it stores that same session with each given artifact replaced and the last access set
  to the current time, and touches no other entry and not the time-to-live. So where
  \<open>get\<close> at that moment returns not-found because the time-to-live has lapsed, a
  \<open>get\<close> within the time-to-live of the update returns the session again, as updated.
\<close>

theorem update_session_no_expiry_check:
  "(sessions mgr sid = None \<longrightarrow> update_session mgr sid mg docs bm blobs now = mgr)
   \<and> (\<forall>s. sessions mgr sid = Some s \<longrightarrow>
          sessions (update_session mgr sid mg docs bm blobs now) sid
            = Some (s\<lparr>main_graph := (case mg of None \<Rightarrow> main_graph s | Some g \<Rightarrow> Some g),
                      cached_documents := (case docs of None \<Rightarrow> cached_documents s | Some d \<Rightarrow> d),
                      bm25_retriever := (case bm of None \<Rightarrow> bm25_retriever s | Some r \<Rightarrow> Some r),
                      raw_blobs := (case blobs of None \<Rightarrow> raw_blobs s | Some b \<Rightarrow> b),
                      last_accessed := now\<rparr>)
          \<and> (\<forall>other. other \<noteq> sid \<longrightarrow>
                 sessions (update_session mgr sid mg docs bm blobs now) other = sessions mgr other)
          \<and> session_ttl (update_session mgr sid mg docs bm blobs now) = session_ttl mgr
          \<and> (now - last_accessed s > session_ttl mgr \<longrightarrow>
                 fst (get_session mgr sid now now') = None)
          \<and> (t - now \<le> session_ttl mgr \<longrightarrow>
                 fst (get_session (update_session mgr sid mg docs bm blobs now) sid t t')
                   = Some (s\<lparr>main_graph := (case mg of None \<Rightarrow> main_graph s | Some g \<Rightarrow> Some g),
                             cached_documents := (case docs of None \<Rightarrow> cached_documents s | Some d \<Rightarrow> d),
                             bm25_retriever := (case bm of None \<Rightarrow> bm25_retriever s | Some r \<Rightarrow> Some r),
                             raw_blobs := (case blobs of None \<Rightarrow> raw_blobs s | Some b \<Rightarrow> b),
                             last_accessed := t'\<rparr>)))"
proof (intro conjI impI allI)
  assume "sessions mgr sid = None"
  then show "update_session mgr sid mg docs bm blobs now = mgr"
    by (simp add: update_session_def)
next
  fix s
  assume s: "sessions mgr sid = Some s"
  let ?m = "update_session mgr sid mg docs bm blobs now"
  let ?s = "s\<lparr>main_graph := (case mg of None \<Rightarrow> main_graph s | Some g \<Rightarrow> Some g),
              cached_documents := (case docs of None \<Rightarrow> cached_documents s | Some d \<Rightarrow> d),
              bm25_retriever := (case bm of None \<Rightarrow> bm25_retriever s | Some r \<Rightarrow> Some r),
              raw_blobs := (case blobs of None \<Rightarrow> raw_blobs s | Some b \<Rightarrow> b),
              last_accessed := now\<rparr>"
  show stored: "sessions ?m sid = Some ?s"
    using s by (simp add: update_session_def Let_def split: option.splits)
  show ttl: "session_ttl ?m = session_ttl mgr"
    by (rule update_session_ttl)
  {
    fix other assume "other \<noteq> sid"
    then show "sessions ?m other = sessions mgr other"
      using s by (simp add: update_session_def Let_def)
  }
  {
    assume "now - last_accessed s > session_ttl mgr"
    then show "fst (get_session mgr sid now now') = None"
      using s by (simp add: get_session_def)
  }
  {
    assume "t - now \<le> session_ttl mgr"
    then show "fst (get_session ?m sid t t')
                 = Some (s\<lparr>main_graph := (case mg of None \<Rightarrow> main_graph s | Some g \<Rightarrow> Some g),
                           cached_documents := (case docs of None \<Rightarrow> cached_documents s | Some d \<Rightarrow> d),
                           bm25_retriever := (case bm of None \<Rightarrow> bm25_retriever s | Some r \<Rightarrow> Some r),
                           raw_blobs := (case blobs of None \<Rightarrow> raw_blobs s | Some b \<Rightarrow> b),
                           last_accessed := t'\<rparr>)"
      using stored ttl by (simp add: get_session_def)
  }
qed

theorem update_session_no_expiry_check_witness:
  "sessions demo_manager ''zz'' = None
   \<and> update_session demo_manager ''zz'' (Some ()) None None None 5 = demo_manager
   \<and> sessions demo_manager ''s1'' = Some demo_session
   \<and> ''zz'' \<noteq> ''s1''
   \<and> sessions (update_session demo_manager ''s1'' (Some ()) (Some [(), ()]) None None 90000000000) ''zz''
       = sessions demo_manager ''zz''
   \<and> 90000000000 - last_accessed demo_session > session_ttl demo_manager
   \<and> fst (get_session demo_manager ''s1'' 90000000000 90000000001) = None
   \<and> sessions (update_session demo_manager ''s1'' (Some ()) (Some [(), ()]) None None 90000000000) ''s1''
       = Some (demo_session\<lparr>main_graph := Some (), cached_documents := [(), ()],
                             last_accessed := 90000000000\<rparr>)
   \<and> 90000000007 - 90000000000 \<le> session_ttl demo_manager
   \<and> fst (get_session (update_session demo_manager ''s1'' (Some ()) (Some [(), ()]) None None 90000000000)
            ''s1'' 90000000007 90000000008)
       = Some (demo_session\<lparr>main_graph := Some (), cached_documents := [(), ()],
                             last_accessed := 90000000008\<rparr>)"
proof -
  have z: "sessions demo_manager ''zz'' = None"
    by (simp add: demo_manager_def create_session_def init_manager_def)
  have e: "90000000000 - last_accessed demo_session > session_ttl demo_manager"
    by (simp add: demo_manager_ttl demo_session_def)
  have w: "90000000007 - 90000000000 \<le> session_ttl demo_manager"
    by (simp add: demo_manager_ttl)
  have n: "''zz'' \<noteq> ''s1''" by simp
  note a = update_session_no_expiry_check
             [where mgr = demo_manager and sid = "''zz''" and mg = "Some ()" and docs = None
                and bm = None and blobs = None and now = 5, THEN conjunct1, rule_format, OF z]
  note b = update_session_no_expiry_check
             [where mgr = demo_manager and sid = "''s1''" and mg = "Some ()" and docs = "Some [(), ()]"
                and bm = None and blobs = None and now = 90000000000 and t = 90000000007
                and now' = 90000000001 and t' = 90000000008,
              THEN conjunct2, rule_format, OF demo_manager_lookup]
  have b1: "sessions (update_session demo_manager ''s1'' (Some ()) (Some [(), ()]) None None 90000000000) ''s1''
       = Some (demo_session\<lparr>main_graph := Some (), cached_documents := [(), ()],
                             last_accessed := 90000000000\<rparr>)"
    using b [THEN conjunct1] by simp
  have b2: "sessions (update_session demo_manager ''s1'' (Some ()) (Some [(), ()]) None None 90000000000) ''zz''
       = sessions demo_manager ''zz''"
    by (rule b [THEN conjunct2, THEN conjunct1, rule_format, OF n])
  have b3: "fst (get_session demo_manager ''s1'' 90000000000 90000000001) = None"
    by (rule b [THEN conjunct2, THEN conjunct2, THEN conjunct2, THEN conjunct1, rule_format, OF e])
  have b4: "fst (get_session (update_session demo_manager ''s1'' (Some ()) (Some [(), ()]) None None 90000000000)
            ''s1'' 90000000007 90000000008)
       = Some (demo_session\<lparr>main_graph := Some (), cached_documents := [(), ()],
                             last_accessed := 90000000008\<rparr>)"
    using b [THEN conjunct2, THEN conjunct2, THEN conjunct2, THEN conjunct2, rule_format, OF w]
    by simp
  show ?thesis
    by (intro conjI) (rule z a demo_manager_lookup n b2 e b3 b1 w b4)+
qed

section \<open>Properties of the graphs\<close>

lemma step_state: "step g cur st = Inr (u, st', r) \<Longrightarrow> st' = apply_update st u"
  by (auto simp: step_def split: option.splits sum.splits)

lemma step_route: "step g cur st = Inr (u, st', r) \<Longrightarrow> route g cur st' = r"
  by (auto simp: step_def split: option.splits sum.splits)

lemma step_node:
  assumes "step g cur st = Inr x"
  shows "cur \<in> fst ` set (nodes g)"
proof -
  from assms obtain f where "map_of (nodes g) cur = Some f"
    by (cases "map_of (nodes g) cur") (simp_all add: step_def)
  then have "(cur, f) \<in> set (nodes g)" by (rule map_of_SomeD)
  then show ?thesis by force
qed

text \<open>The cases of one unfolding of a run.\<close>

lemma run_Suc_cases:
  obtains (node_fails) e where "step g cur st = Inl e" "run (Suc k) g cur st = ([], Inl e)"
  | (route_fails) u st' e where "step g cur st = Inr (u, st', Inl e)"
      "run (Suc k) g cur st = ([(cur, u)], Inl e)"
  | (ends) u st' where "step g cur st = Inr (u, st', Inr END)"
      "run (Suc k) g cur st = ([(cur, u)], Inr st')"
  | (goes_on) u st' n where "step g cur st = Inr (u, st', Inr (Node n))"
      "run (Suc k) g cur st = ((cur, u) # fst (run k g n st'), snd (run k g n st'))"
proof (cases "step g cur st")
  case (Inl e)
  then show ?thesis using node_fails by simp
next
  case (Inr x)
  obtain u st' r where x: "x = (u, st', r)" by (cases x)
  show ?thesis
  proof (cases r)
    case (Inl e)
    with Inr x show ?thesis using route_fails by simp
  next
    case r: (Inr t)
    show ?thesis
    proof (cases t)
      case END
      with Inr x r show ?thesis using ends by simp
    next
      case (Node n)
      with Inr x r show ?thesis using goes_on [of u st' n] by (simp split: prod.splits)
    qed
  qed
qed

lemma run_messages:
  "run k g cur st = (evs, Inr st') \<Longrightarrow>
     messages st' = messages st @ concat (map (\<lambda>ev. upd_messages (snd ev)) evs)"
proof (induction k arbitrary: cur st evs)
  case 0
  then show ?case by simp
next
  case (Suc k)
  show ?case
  proof (cases rule: run_Suc_cases [of g cur st k])
    case (node_fails e)
    with Suc.prems show ?thesis by simp
  next
    case (route_fails u st1 e)
    with Suc.prems show ?thesis by simp
  next
    case (ends u st1)
    with Suc.prems step_state [OF ends(1)] show ?thesis
      by (auto simp: apply_update_def)
  next
    case (goes_on u st1 n)
    with Suc.prems have e: "evs = (cur, u) # fst (run k g n st1)" "snd (run k g n st1) = Inr st'"
      by auto
    then have "run k g n st1 = (fst (run k g n st1), Inr st')"
      by (metis prod.collapse)
    from Suc.IH [OF this]
    have "messages st' = messages st1 @ concat (map (\<lambda>ev. upd_messages (snd ev)) (fst (run k g n st1)))" .
    with step_state [OF goes_on(1)] e show ?thesis
      by (simp add: apply_update_def)
  qed
qed



lemma route_END:
  assumes "hub_graph g" "cur \<in> fst ` set (nodes g)" "route g cur st = Inr END"
  shows "cur = conditional_source g \<and> nxt st = Some ''FINISH''"
proof (cases "cur = conditional_source g")
  case True
  with assms(3) obtain n where n: "nxt st = Some n" "map_of (path_map g) n = Some END"
    by (auto simp: route_def split: option.splits)
  then have "(n, END) \<in> set (path_map g)" by (simp add: map_of_SomeD)
  with assms(1) have "n = ''FINISH''" by (auto simp: hub_graph_def)
  with True n show ?thesis by simp
next
  case False
  from assms(2) obtain f where "(cur, f) \<in> set (nodes g)" by auto
  with assms(1) False have "cur \<in> fst ` set (edges g)" unfolding hub_graph_def by blast
  then have "map_of (edges g) cur \<noteq> None" by (simp add: map_of_eq_None_iff)
  with False assms(3) show ?thesis by (auto simp: route_def split: option.splits)
qed

lemma run_finish:
  assumes "hub_graph g"
  shows "snd (run k g cur st) = Inr st' \<Longrightarrow> nxt st' = Some ''FINISH''"
proof (induction k arbitrary: cur st)
  case 0
  then show ?case by simp
next
  case (Suc k)
  show ?case
  proof (cases rule: run_Suc_cases [of g cur st k])
    case (node_fails e)
    with Suc.prems show ?thesis by simp
  next
    case (route_fails u st1 e)
    with Suc.prems show ?thesis by simp
  next
    case (ends u st1)
    with Suc.prems have "st' = st1" by simp
    moreover have "route g cur st1 = Inr END" using step_route [OF ends(1)] by simp
    ultimately show ?thesis using route_END [OF assms step_node [OF ends(1)]] by simp
  next
    case (goes_on u st1 n)
    with Suc.prems have "snd (run k g n st1) = Inr st'" by simp
    then show ?thesis by (rule Suc.IH)
  qed
qed

lemma hub_research: "hub_graph (build_research_graph a b c)"
  by (simp add: hub_graph_def build_research_graph_def)

lemma hub_analysis: "hub_graph (build_analysis_graph a b c)"
  by (simp add: hub_graph_def build_analysis_graph_def)

lemma hub_main: "hub_graph (build_main_graph a b c)"
  by (simp add: hub_graph_def build_main_graph_def)

lemma run_first:
  "fst (run k g cur st) = ev # evs \<Longrightarrow> fst ev = cur"
proof (cases k)
  case 0
  assume "fst (run k g cur st) = ev # evs"
  with 0 show ?thesis by simp
next
  case (Suc k')
  assume a: "fst (run k g cur st) = ev # evs"
  show ?thesis
    by (cases rule: run_Suc_cases [of g cur st k']) (use a Suc in auto)
qed

lemma route_member:
  assumes "hub_graph g" "cur \<noteq> conditional_source g" "route g cur st = Inr (Node n)"
  shows "n = conditional_source g"
proof -
  from assms(2,3) have "map_of (edges g) cur = Some n"
    by (auto simp: route_def split: option.splits)
  then have "(cur, n) \<in> set (edges g)" by (rule map_of_SomeD)
  with assms(1) show ?thesis unfolding hub_graph_def by blast
qed

lemma run_via_router:
  assumes "hub_graph g"
  shows "via_router (conditional_source g) (map fst (fst (run k g cur st)))"
proof (induction k arbitrary: cur st)
  case 0
  then show ?case by simp
next
  case (Suc k)
  show ?case
  proof (cases rule: run_Suc_cases [of g cur st k])
    case (goes_on u st1 n)
    have ih: "via_router (conditional_source g) (map fst (fst (run k g n st1)))"
      by (rule Suc.IH)
    show ?thesis
    proof (cases "fst (run k g n st1)")
      case Nil
      with goes_on show ?thesis by simp
    next
      case (Cons ev evs')
      have "fst ev = n" using run_first [OF Cons] .
      moreover have "cur = conditional_source g \<or> n = conditional_source g"
        using route_member [OF assms, of cur st1 n] step_route [OF goes_on(1)] by auto
      ultimately show ?thesis using goes_on ih Cons by simp
    qed
  qed simp_all
qed

lemma join_graph_Inr:
  "join_graph response = Inr u \<longleftrightarrow>
     messages response \<noteq> [] \<and>
     u = \<lparr>upd_messages = [last (messages response)],
          upd_documents = (case documents response of None \<Rightarrow> None
                           | Some d \<Rightarrow> if d \<noteq> [] then Some d else None),
          upd_team_members = None, upd_next = None\<rparr>"
  by (auto simp: join_graph_def)

lemma foldl_apply_update_documents:
  "\<forall>u \<in> set us. upd_documents u = None \<Longrightarrow> documents (foldl apply_update st us) = documents st"
  by (induction us arbitrary: st) (auto simp: apply_update_def)

text \<open>
  C1. At every exit from a team back to the main graph (both team nodes end in
  \<open>join_graph\<close>, and the engine folds the returned update into the outer state): a
  non-empty document list of the inner run replaces the outer documents, and an empty or
  absent one leaves the outer documents exactly as they were. In particular, after a
  Research-team exit with the non-empty documents \<open>D\<close>, any number of updates that
  carry no documents (supervisor steps) and an Analysis-team exit with empty documents,
  the outer documents are \<open>D\<close>.
\<close>

theorem team_exit_documents:
  "(\<forall>response u outer. join_graph response = Inr u \<longrightarrow>
      (\<forall>d. documents response = Some d \<and> d \<noteq> [] \<longrightarrow> documents (apply_update outer u) = Some d)
      \<and> (documents response = None \<or> documents response = Some [] \<longrightarrow>
            documents (apply_update outer u) = documents outer))
   \<and> (\<forall>research_response u1 analysis_response u2 between outer D.
        join_graph research_response = Inr u1 \<and> documents research_response = Some D \<and> D \<noteq> []
        \<and> (\<forall>u \<in> set between. upd_documents u = None)
        \<and> join_graph analysis_response = Inr u2
        \<and> (documents analysis_response = None \<or> documents analysis_response = Some [])
        \<longrightarrow> documents (apply_update (foldl apply_update (apply_update outer u1) between) u2) = Some D)"
proof (intro conjI allI impI)
  fix response u outer d
  assume "join_graph response = Inr u" "documents response = Some d \<and> d \<noteq> []"
  then show "documents (apply_update outer u) = Some d"
    by (auto simp: join_graph_Inr apply_update_def)
next
  fix response u outer
  assume "join_graph response = Inr u" "documents response = None \<or> documents response = Some []"
  then show "documents (apply_update outer u) = documents outer"
    by (auto simp: join_graph_Inr apply_update_def)
next
  fix research_response u1 analysis_response u2 and between :: "update list" and outer D
  assume a: "join_graph research_response = Inr u1 \<and> documents research_response = Some D \<and> D \<noteq> []
        \<and> (\<forall>u \<in> set between. upd_documents u = None)
        \<and> join_graph analysis_response = Inr u2
        \<and> (documents analysis_response = None \<or> documents analysis_response = Some [])"
  have 1: "documents (apply_update outer u1) = Some D"
    using a by (auto simp: join_graph_Inr apply_update_def)
  have 2: "documents (foldl apply_update (apply_update outer u1) between) = Some D"
    using a 1 by (simp add: foldl_apply_update_documents)
  have 3: "upd_documents u2 = None"
    using a by (auto simp: join_graph_Inr)
  show "documents (apply_update (foldl apply_update (apply_update outer u1) between) u2) = Some D"
    using 2 3 by (simp add: apply_update_def)
qed

text \<open>
  C9. In the research, analysis and main graphs alike: every fixed edge out of a member
  leads to the graph's router, and so does the routing out of that member in any state;
  a node routes to the end only if it is the router and \<open>next\<close> is \<open>FINISH\<close>; and in
  the sequence of nodes any run visits, of two consecutive nodes one is the router.
\<close>

theorem every_hop_through_router:
  assumes "g \<in> {build_research_graph search research r_llm,
                 build_analysis_graph topic sentiment a_llm,
                 build_main_graph s_llm research_chain analysis_chain}"
  shows "(\<forall>(member, t) \<in> set (edges g). t = conditional_source g
             \<and> route g member st = Inr (Node (conditional_source g)))
       \<and> (\<forall>cur \<in> fst ` set (nodes g). route g cur st = Inr END \<longrightarrow>
             cur = conditional_source g \<and> nxt st = Some ''FINISH'')
       \<and> via_router (conditional_source g) (map fst (fst (run k g start st)))"
proof -
  have hub: "hub_graph g"
    using assms hub_research hub_analysis hub_main by auto
  have 1: "\<forall>(member, t) \<in> set (edges g). t = conditional_source g
             \<and> route g member st = Inr (Node (conditional_source g))"
    using assms
    by (auto simp: build_research_graph_def build_analysis_graph_def build_main_graph_def route_def)
  have 2: "\<forall>cur \<in> fst ` set (nodes g). route g cur st = Inr END \<longrightarrow>
             cur = conditional_source g \<and> nxt st = Some ''FINISH''"
    using route_END [OF hub] by blast
  show ?thesis using 1 2 run_via_router [OF hub] by blast
qed

text \<open>
  C2, as amended. Entering a team does not hand over the system-level log. With a
  non-empty outer log, the Research team node runs the team graph from a state whose log
  is one fresh, unnamed message with the content of the last outer message, without
  documents and without a member list; the Analysis team node runs its graph from a state
  with the same one-message log, the outer documents (empty when unset) and the member
  string \<open>Topic, Sentiment\<close>.
\<close>

theorem team_entry_state:
  assumes "messages outer \<noteq> []"
  shows "research_team_node (create_research_chain limit g) outer =
           (case snd (run limit g (entry_point g)
                        \<lparr>messages = [HumanMessage (content (last (messages outer))) None],
                         documents = None, team_members = None, nxt = None\<rparr>) of
              Inl e \<Rightarrow> Inl e
            | Inr result \<Rightarrow>
                join_graph \<lparr>messages = messages result,
                            documents = Some (case documents result of None \<Rightarrow> [] | Some d \<Rightarrow> d),
                            team_members = None, nxt = None\<rparr>)
       \<and> get_messages_and_documents (create_analysis_chain limit g') outer =
           (case snd (run limit g' (entry_point g')
                        \<lparr>messages = [HumanMessage (content (last (messages outer))) None],
                         documents = Some (case documents outer of None \<Rightarrow> [] | Some d \<Rightarrow> d),
                         team_members = Some ''Topic, Sentiment'', nxt = None\<rparr>) of
              Inl e \<Rightarrow> Inl e
            | Inr result \<Rightarrow> join_graph result)"
  using assms
  by (simp add: research_team_node_def get_last_message_def create_research_chain_def
        research_chain_with_docs_def enter_research_chain_def invoke_def apply_update_def
        empty_state_def get_messages_and_documents_def create_analysis_chain_def
        enter_sentiment_chain_def split: sum.splits option.splits)

text \<open>
  C2 as stated fails: for an outer state with two messages and one document, the log of
  the team-level entry state differs from the outer log for both teams, and the Research
  team's entry state has no documents.
\<close>

theorem team_entry_state_counterexample:
  "get_last_message demo_outer = Inr ''Found one comment.''
   \<and> messages (apply_update empty_state (enter_research_chain ''Found one comment.''))
       = [HumanMessage ''Found one comment.'' None]
   \<and> messages (apply_update empty_state (enter_research_chain ''Found one comment.''))
       \<noteq> messages demo_outer
   \<and> documents (apply_update empty_state (enter_research_chain ''Found one comment.'')) = None
   \<and> documents demo_outer = Some [demo_doc]
   \<and> messages (apply_update empty_state
                  (enter_sentiment_chain \<lparr>message = ''Found one comment.'',
                                          input_documents = Some [demo_doc]\<rparr>))
       \<noteq> messages demo_outer"
  by (simp add: get_last_message_def demo_outer_def apply_update_def empty_state_def
        enter_research_chain_def enter_sentiment_chain_def)

lemma run_25: "run 25 g cur st = run (Suc 24) g cur st"
  by (simp only: eval_nat_numeral)

lemma research_graph_parts:
  "entry_point (build_research_graph a b c) = ''ResearchSupervisor''"
  "conditional_source (build_research_graph a b c) = ''ResearchSupervisor''"
  "map_of (nodes (build_research_graph a b c)) ''ResearchSupervisor''
     = Some (create_team_supervisor c [''VideoSearch'', ''CommentFinder''])"
  "map_of (nodes (build_research_graph a b c)) ''VideoSearch''
     = Some (\<lambda>state. agent_node state a ''VideoSearch'')"
  "map_of (nodes (build_research_graph a b c)) ''CommentFinder''
     = Some (\<lambda>state. agent_node_with_docs state b ''CommentFinder'')"
  "map_of (path_map (build_research_graph a b c)) ''FINISH'' = Some END"
  "map_of (path_map (build_research_graph a b c)) ''VideoSearch'' = Some (Node ''VideoSearch'')"
  "map_of (path_map (build_research_graph a b c)) ''CommentFinder'' = Some (Node ''CommentFinder'')"
  "map_of (edges (build_research_graph a b c)) ''VideoSearch'' = Some ''ResearchSupervisor''"
  "map_of (edges (build_research_graph a b c)) ''CommentFinder'' = Some ''ResearchSupervisor''"
  by (simp_all add: build_research_graph_def)

lemma analysis_graph_parts:
  "entry_point (build_analysis_graph a b c) = ''AnalysisSupervisor''"
  "conditional_source (build_analysis_graph a b c) = ''AnalysisSupervisor''"
  "map_of (nodes (build_analysis_graph a b c)) ''AnalysisSupervisor''
     = Some (create_team_supervisor c [''Topic'', ''Sentiment''])"
  "map_of (nodes (build_analysis_graph a b c)) ''Topic''
     = Some (\<lambda>state. agent_node state a ''Topic'')"
  "map_of (nodes (build_analysis_graph a b c)) ''Sentiment''
     = Some (\<lambda>state. agent_node state b ''Sentiment'')"
  "map_of (path_map (build_analysis_graph a b c)) ''FINISH'' = Some END"
  "map_of (path_map (build_analysis_graph a b c)) ''Topic'' = Some (Node ''Topic'')"
  "map_of (path_map (build_analysis_graph a b c)) ''Sentiment'' = Some (Node ''Sentiment'')"
  "map_of (edges (build_analysis_graph a b c)) ''Topic'' = Some ''AnalysisSupervisor''"
  "map_of (edges (build_analysis_graph a b c)) ''Sentiment'' = Some ''AnalysisSupervisor''"
  by (simp_all add: build_analysis_graph_def)

lemma main_graph_parts:
  "entry_point (build_main_graph s rc ac) = ''SuperSupervisor''"
  "conditional_source (build_main_graph s rc ac) = ''SuperSupervisor''"
  "map_of (nodes (build_main_graph s rc ac)) ''SuperSupervisor''
     = Some (create_team_supervisor s [''Research team'', ''Analysis team''])"
  "map_of (nodes (build_main_graph s rc ac)) ''Research team'' = Some (research_team_node rc)"
  "map_of (nodes (build_main_graph s rc ac)) ''Analysis team'' = Some (get_messages_and_documents ac)"
  "map_of (path_map (build_main_graph s rc ac)) ''FINISH'' = Some END"
  "map_of (path_map (build_main_graph s rc ac)) ''Research team'' = Some (Node ''Research team'')"
  "map_of (path_map (build_main_graph s rc ac)) ''Analysis team'' = Some (Node ''Analysis team'')"
  "map_of (edges (build_main_graph s rc ac)) ''Research team'' = Some ''SuperSupervisor''"
  "map_of (edges (build_main_graph s rc ac)) ''Analysis team'' = Some ''SuperSupervisor''"
  by (simp_all add: build_main_graph_def)

lemma finish_at_once:
  assumes "map_of (nodes g) cur = Some (create_team_supervisor (always ''FINISH'') members)"
      and "conditional_source g = cur"
      and "map_of (path_map g) ''FINISH'' = Some END"
  shows "run (Suc k) g cur st =
           ([(cur, \<lparr>upd_messages = [], upd_documents = None, upd_team_members = None,
                    upd_next = Some ''FINISH''\<rparr>)],
            Inr (st\<lparr>nxt := Some ''FINISH''\<rparr>))"
  using assms
  by (simp add: step_def route_def apply_update_def create_team_supervisor_def extract_next_def
        always_def route_to_def)

lemma research_finish_at_once:
  "run 25 (build_research_graph a b (always ''FINISH'')) ''ResearchSupervisor'' st =
     ([(''ResearchSupervisor'',
        \<lparr>upd_messages = [], upd_documents = None, upd_team_members = None,
         upd_next = Some ''FINISH''\<rparr>)],
      Inr (st\<lparr>nxt := Some ''FINISH''\<rparr>))"
  unfolding run_25
  by (rule finish_at_once) (simp_all only: research_graph_parts)

lemma analysis_finish_at_once:
  "run 25 (build_analysis_graph a b (always ''FINISH'')) ''AnalysisSupervisor'' st =
     ([(''AnalysisSupervisor'',
        \<lparr>upd_messages = [], upd_documents = None, upd_team_members = None,
         upd_next = Some ''FINISH''\<rparr>)],
      Inr (st\<lparr>nxt := Some ''FINISH''\<rparr>))"
  unfolding run_25
  by (rule finish_at_once) (simp_all only: analysis_graph_parts)

lemma main_finish_at_once:
  "run 25 (build_main_graph (always ''FINISH'') rc ac) ''SuperSupervisor'' st =
     ([(''SuperSupervisor'',
        \<lparr>upd_messages = [], upd_documents = None, upd_team_members = None,
         upd_next = Some ''FINISH''\<rparr>)],
      Inr (st\<lparr>nxt := Some ''FINISH''\<rparr>))"
  unfolding run_25
  by (rule finish_at_once) (simp_all only: main_graph_parts)

lemma demo_research_node:
  "research_team_node
       (create_research_chain 25
          (build_research_graph (plain_agent ''s'') (plain_agent ''c'') (always ''FINISH''))) demo_outer
       = Inr \<lparr>upd_messages = [HumanMessage ''Found one comment.'' None], upd_documents = None,
              upd_team_members = None, upd_next = None\<rparr>"
  by (simp add: research_team_node_def get_last_message_def create_research_chain_def
        research_chain_with_docs_def enter_research_chain_def invoke_def apply_update_def
        empty_state_def research_finish_at_once research_graph_parts
        join_graph_def demo_outer_def del: run.simps)

lemma demo_analysis_node:
  "get_messages_and_documents
       (create_analysis_chain 25
          (build_analysis_graph (plain_agent ''t'') (plain_agent ''p'') (always ''FINISH''))) demo_outer
       = Inr \<lparr>upd_messages = [HumanMessage ''Found one comment.'' None], upd_documents = Some [demo_doc],
              upd_team_members = None, upd_next = None\<rparr>"
  by (simp add: get_messages_and_documents_def create_analysis_chain_def
        enter_sentiment_chain_def invoke_def apply_update_def
        empty_state_def analysis_finish_at_once analysis_graph_parts
        join_graph_def demo_outer_def del: run.simps)

theorem team_entry_state_witness:
  "messages demo_outer \<noteq> []
   \<and> research_team_node
       (create_research_chain 25
          (build_research_graph (plain_agent ''s'') (plain_agent ''c'') (always ''FINISH''))) demo_outer
       = Inr \<lparr>upd_messages = [HumanMessage ''Found one comment.'' None], upd_documents = None,
              upd_team_members = None, upd_next = None\<rparr>
   \<and> get_messages_and_documents
       (create_analysis_chain 25
          (build_analysis_graph (plain_agent ''t'') (plain_agent ''p'') (always ''FINISH''))) demo_outer
       = Inr \<lparr>upd_messages = [HumanMessage ''Found one comment.'' None], upd_documents = Some [demo_doc],
              upd_team_members = None, upd_next = None\<rparr>"
proof -
  have ne: "messages demo_outer \<noteq> []" by (simp add: demo_outer_def)
  show ?thesis
    using ne demo_research_node demo_analysis_node
          team_entry_state [OF ne, of 25
            "build_research_graph (plain_agent ''s'') (plain_agent ''c'') (always ''FINISH'')"
            "build_analysis_graph (plain_agent ''t'') (plain_agent ''p'') (always ''FINISH'')"]
    by blast
qed

theorem team_exit_documents_witness:
  "join_graph \<lparr>messages = [HumanMessage ''Found one comment.'' (Some ''CommentFinder'')],
               documents = Some [demo_doc], team_members = None, nxt = None\<rparr>
     = Inr \<lparr>upd_messages = [HumanMessage ''Found one comment.'' (Some ''CommentFinder'')],
            upd_documents = Some [demo_doc], upd_team_members = None, upd_next = None\<rparr>
   \<and> join_graph \<lparr>messages = [HumanMessage ''positive'' (Some ''Sentiment'')],
               documents = Some [], team_members = Some ''Topic, Sentiment'', nxt = Some ''FINISH''\<rparr>
     = Inr \<lparr>upd_messages = [HumanMessage ''positive'' (Some ''Sentiment'')],
            upd_documents = None, upd_team_members = None, upd_next = None\<rparr>
   \<and> documents
       (apply_update
          (foldl apply_update
             (apply_update empty_state
                \<lparr>upd_messages = [HumanMessage ''Found one comment.'' (Some ''CommentFinder'')],
                 upd_documents = Some [demo_doc], upd_team_members = None, upd_next = None\<rparr>)
             [\<lparr>upd_messages = [], upd_documents = None, upd_team_members = None,
               upd_next = Some ''Analysis team''\<rparr>])
          \<lparr>upd_messages = [HumanMessage ''positive'' (Some ''Sentiment'')],
           upd_documents = None, upd_team_members = None, upd_next = None\<rparr>)
     = Some [demo_doc]"
proof -
  let ?r1 = "\<lparr>messages = [HumanMessage ''Found one comment.'' (Some ''CommentFinder'')],
               documents = Some [demo_doc], team_members = None, nxt = None\<rparr>"
  let ?u1 = "\<lparr>upd_messages = [HumanMessage ''Found one comment.'' (Some ''CommentFinder'')],
            upd_documents = Some [demo_doc], upd_team_members = None, upd_next = None\<rparr>"
  let ?r2 = "\<lparr>messages = [HumanMessage ''positive'' (Some ''Sentiment'')],
               documents = Some [], team_members = Some ''Topic, Sentiment'', nxt = Some ''FINISH''\<rparr>"
  let ?u2 = "\<lparr>upd_messages = [HumanMessage ''positive'' (Some ''Sentiment'')],
            upd_documents = None, upd_team_members = None, upd_next = None\<rparr>"
  let ?b = "[\<lparr>upd_messages = [], upd_documents = None, upd_team_members = None,
               upd_next = Some ''Analysis team''\<rparr>]"
  have 1: "join_graph ?r1 = Inr ?u1" by (simp add: join_graph_def)
  have 2: "join_graph ?r2 = Inr ?u2" by (simp add: join_graph_def)
  show ?thesis
    using team_exit_documents [THEN conjunct2, rule_format, of ?r1 ?u1 "[demo_doc]" ?b ?r2 ?u2 empty_state]
          1 2
    by simp
qed

theorem every_hop_through_router_witness:
  "build_analysis_graph (plain_agent ''t'') (plain_agent ''p'') (always ''FINISH'')
     \<in> {build_research_graph (plain_agent ''s'') (plain_agent ''c'') (always ''FINISH''),
         build_analysis_graph (plain_agent ''t'') (plain_agent ''p'') (always ''FINISH''),
         build_main_graph (always ''FINISH'') (\<lambda>m. Inl IndexError) (\<lambda>i. Inl IndexError)}
   \<and> (''Topic'', ''AnalysisSupervisor'')
        \<in> set (edges (build_analysis_graph (plain_agent ''t'') (plain_agent ''p'') (always ''FINISH'')))
   \<and> route (build_analysis_graph (plain_agent ''t'') (plain_agent ''p'') (always ''FINISH''))
         ''Topic'' demo_outer = Inr (Node ''AnalysisSupervisor'')
   \<and> ''AnalysisSupervisor''
        \<in> fst ` set (nodes (build_analysis_graph (plain_agent ''t'') (plain_agent ''p'') (always ''FINISH'')))
   \<and> route (build_analysis_graph (plain_agent ''t'') (plain_agent ''p'') (always ''FINISH''))
         ''AnalysisSupervisor'' demo_outer = Inr END
   \<and> nxt demo_outer = Some ''FINISH''
   \<and> via_router ''AnalysisSupervisor''
        (map fst (fst (run 25 (build_analysis_graph (plain_agent ''t'') (plain_agent ''p'') (always ''FINISH''))
                         ''AnalysisSupervisor'' demo_outer)))"
proof -
  let ?g = "build_analysis_graph (plain_agent ''t'') (plain_agent ''p'') (always ''FINISH'')"
  have m: "?g \<in> {build_research_graph (plain_agent ''s'') (plain_agent ''c'') (always ''FINISH''), ?g,
                   build_main_graph (always ''FINISH'') (\<lambda>m. Inl IndexError) (\<lambda>i. Inl IndexError)}"
    by simp
  have e: "(''Topic'', ''AnalysisSupervisor'') \<in> set (edges ?g)"
    by (simp add: build_analysis_graph_def)
  have n: "''AnalysisSupervisor'' \<in> fst ` set (nodes ?g)"
    by (simp add: build_analysis_graph_def)
  have r: "route ?g ''AnalysisSupervisor'' demo_outer = Inr END"
    by (simp add: route_def analysis_graph_parts demo_outer_def)
  have c: "conditional_source ?g = ''AnalysisSupervisor''"
    by (simp add: analysis_graph_parts)
  note t = every_hop_through_router [OF m, of demo_outer 25 "''AnalysisSupervisor''"]
  from t e have 1: "route ?g ''Topic'' demo_outer = Inr (Node ''AnalysisSupervisor'')"
    unfolding c by blast
  from t n r have 2: "nxt demo_outer = Some ''FINISH''"
    by blast
  from t have 3: "via_router ''AnalysisSupervisor'' (map fst (fst (run 25 ?g ''AnalysisSupervisor'' demo_outer)))"
    unfolding c by blast
  show ?thesis using m e 1 n r 2 3 by blast
qed

lemma unknown_route_step:
  assumes "map_of (nodes g) (conditional_source g) = Some (create_team_supervisor llm members)"
      and "llm st = Inr (tc # others)" "tc_args tc = Some a" "map_of a ''next'' = Some n"
      and "map_of (path_map g) n = None"
  shows "run (Suc k) g (conditional_source g) st
           = ([(conditional_source g,
                \<lparr>upd_messages = [], upd_documents = None, upd_team_members = None,
                 upd_next = Some n\<rparr>)],
              Inl (KeyError n))"
  using assms
  by (simp add: step_def route_def apply_update_def create_team_supervisor_def extract_next_def)

text \<open>
  C5. Whenever a supervisor emits a name that is neither a member of its level nor
  \<open>FINISH\<close>, the run of that level's graph ends with the failed lookup of the name
  after the supervisor's own step: no member runs and the run does not end normally. At
  the system level the driver then closes the turn with the error record of that lookup
  and no final answer.
\<close>

theorem unknown_route_is_fatal:
  assumes "llm st = Inr (tc # others)" "tc_args tc = Some a" "map_of a ''next'' = Some n"
  shows "(n \<notin> set [''VideoSearch'', ''CommentFinder''] \<union> {''FINISH''} \<longrightarrow>
            snd (run (Suc k) (build_research_graph search research llm) ''ResearchSupervisor'' st)
              = Inl (KeyError n)
            \<and> map fst (fst (run (Suc k) (build_research_graph search research llm)
                               ''ResearchSupervisor'' st)) = [''ResearchSupervisor''])
       \<and> (n \<notin> set [''Topic'', ''Sentiment''] \<union> {''FINISH''} \<longrightarrow>
            snd (run (Suc k) (build_analysis_graph topic sentiment llm) ''AnalysisSupervisor'' st)
              = Inl (KeyError n)
            \<and> map fst (fst (run (Suc k) (build_analysis_graph topic sentiment llm)
                               ''AnalysisSupervisor'' st)) = [''AnalysisSupervisor''])
       \<and> (n \<notin> set [''Research team'', ''Analysis team''] \<union> {''FINISH''} \<longrightarrow>
            snd (run (Suc k) (build_main_graph llm research_chain analysis_chain) ''SuperSupervisor'' st)
              = Inl (KeyError n)
            \<and> map fst (fst (run (Suc k) (build_main_graph llm research_chain analysis_chain)
                               ''SuperSupervisor'' st)) = [''SuperSupervisor'']
            \<and> (recursion_limit eng = Suc k
                 \<and> st = apply_update checkpoint
                            \<lparr>upd_messages = [HumanMessage question None], upd_documents = None,
                             upd_team_members = None, upd_next = None\<rparr> \<longrightarrow>
                 execute_turn eng (build_main_graph llm research_chain analysis_chain)
                     checkpoint question sid
                   = ([Progress ''Starting analysis...'',
                       ErrorEvent (''Error during analysis: '' @ py_repr n)],
                      Inl (KeyError n))))"
proof -
  let ?r = "build_research_graph search research llm"
  let ?a = "build_analysis_graph topic sentiment llm"
  let ?m = "build_main_graph llm research_chain analysis_chain"
  let ?u = "\<lparr>upd_messages = [], upd_documents = None, upd_team_members = None, upd_next = Some n\<rparr>"
  have 1: "n \<notin> set [''VideoSearch'', ''CommentFinder''] \<union> {''FINISH''} \<Longrightarrow>
           run (Suc k) ?r ''ResearchSupervisor'' st = ([(''ResearchSupervisor'', ?u)], Inl (KeyError n))"
    using unknown_route_step [of ?r llm "[''VideoSearch'', ''CommentFinder'']" st tc others a n k] assms
    by (simp add: build_research_graph_def)
  have 2: "n \<notin> set [''Topic'', ''Sentiment''] \<union> {''FINISH''} \<Longrightarrow>
           run (Suc k) ?a ''AnalysisSupervisor'' st = ([(''AnalysisSupervisor'', ?u)], Inl (KeyError n))"
    using unknown_route_step [of ?a llm "[''Topic'', ''Sentiment'']" st tc others a n k] assms
    by (simp add: build_analysis_graph_def)
  have 3: "n \<notin> set [''Research team'', ''Analysis team''] \<union> {''FINISH''} \<Longrightarrow>
           run (Suc k) ?m ''SuperSupervisor'' st = ([(''SuperSupervisor'', ?u)], Inl (KeyError n))"
    using unknown_route_step [of ?m llm "[''Research team'', ''Analysis team'']" st tc others a n k] assms
    by (simp add: build_main_graph_def)
  have e: "entry_point ?m = ''SuperSupervisor''"
    by (simp add: build_main_graph_def)
  have 4: "execute_turn eng ?m checkpoint question sid
          = ([Progress ''Starting analysis...'',
              ErrorEvent (''Error during analysis: '' @ py_repr n)],
             Inl (KeyError n))"
    if "run (Suc k) ?m ''SuperSupervisor'' st = ([(''SuperSupervisor'', ?u)], Inl (KeyError n))"
      and "recursion_limit eng = Suc k"
      and "st = apply_update checkpoint
                     \<lparr>upd_messages = [HumanMessage question None], upd_documents = None,
                      upd_team_members = None, upd_next = None\<rparr>"
    using that e
    by (simp add: execute_turn_def invoke_thread_def error_event_def str_of_def is_empty_update_def
          format_progress_message_def format_error_message_def del: run.simps)
  show ?thesis
  proof (intro conjI impI)
    assume n: "n \<notin> set [''VideoSearch'', ''CommentFinder''] \<union> {''FINISH''}"
    show "snd (run (Suc k) ?r ''ResearchSupervisor'' st) = Inl (KeyError n)"
      and "map fst (fst (run (Suc k) ?r ''ResearchSupervisor'' st)) = [''ResearchSupervisor'']"
      unfolding 1 [OF n] by simp_all
  next
    assume n: "n \<notin> set [''Topic'', ''Sentiment''] \<union> {''FINISH''}"
    show "snd (run (Suc k) ?a ''AnalysisSupervisor'' st) = Inl (KeyError n)"
      and "map fst (fst (run (Suc k) ?a ''AnalysisSupervisor'' st)) = [''AnalysisSupervisor'']"
      unfolding 2 [OF n] by simp_all
  next
    assume n: "n \<notin> set [''Research team'', ''Analysis team''] \<union> {''FINISH''}"
    show "snd (run (Suc k) ?m ''SuperSupervisor'' st) = Inl (KeyError n)"
      and "map fst (fst (run (Suc k) ?m ''SuperSupervisor'' st)) = [''SuperSupervisor'']"
      unfolding 3 [OF n] by simp_all
  next
    assume n: "n \<notin> set [''Research team'', ''Analysis team''] \<union> {''FINISH''}"
      and h: "recursion_limit eng = Suc k
                 \<and> st = apply_update checkpoint
                            \<lparr>upd_messages = [HumanMessage question None], upd_documents = None,
                             upd_team_members = None, upd_next = None\<rparr>"
    show "execute_turn eng ?m checkpoint question sid
                   = ([Progress ''Starting analysis...'',
                       ErrorEvent (''Error during analysis: '' @ py_repr n)],
                      Inl (KeyError n))"
      using 4 [OF 3 [OF n]] h by blast
  qed
qed

theorem unknown_route_is_fatal_witness:
  "\<forall>eng k.
     always ''Summarizer''
         (apply_update demo_outer \<lparr>upd_messages = [HumanMessage ''Why?'' None], upd_documents = None,
                                   upd_team_members = None, upd_next = None\<rparr>)
       = Inr (ToolCall ''route'' (Some [(''next'', ''Summarizer'')]) # [])
     \<and> map_of [(''next'', ''Summarizer'')] ''next'' = Some ''Summarizer''
     \<and> ''Summarizer'' \<notin> set [''VideoSearch'', ''CommentFinder''] \<union> {''FINISH''}
     \<and> ''Summarizer'' \<notin> set [''Topic'', ''Sentiment''] \<union> {''FINISH''}
     \<and> ''Summarizer'' \<notin> set [''Research team'', ''Analysis team''] \<union> {''FINISH''}
     \<and> recursion_limit (eng\<lparr>recursion_limit := Suc k\<rparr>) = Suc k
     \<and> snd (run (Suc k) (build_research_graph (plain_agent ''s'') (plain_agent ''c'') (always ''Summarizer''))
              ''ResearchSupervisor''
              (apply_update demo_outer \<lparr>upd_messages = [HumanMessage ''Why?'' None], upd_documents = None,
                                        upd_team_members = None, upd_next = None\<rparr>))
         = Inl (KeyError ''Summarizer'')
     \<and> map fst (fst (run (Suc k)
                        (build_analysis_graph (plain_agent ''t'') (plain_agent ''p'') (always ''Summarizer''))
                        ''AnalysisSupervisor''
                        (apply_update demo_outer
                           \<lparr>upd_messages = [HumanMessage ''Why?'' None], upd_documents = None,
                            upd_team_members = None, upd_next = None\<rparr>)))
         = [''AnalysisSupervisor'']
     \<and> execute_turn (eng\<lparr>recursion_limit := Suc k\<rparr>)
           (build_main_graph (always ''Summarizer'') (\<lambda>m. Inl IndexError) (\<lambda>i. Inl IndexError))
           demo_outer ''Why?'' ''s1''
         = ([Progress ''Starting analysis...'',
             ErrorEvent (''Error during analysis: '' @ [CHR 0x27] @ ''Summarizer'' @ [CHR 0x27])],
            Inl (KeyError ''Summarizer''))"
proof (intro allI)
  fix eng :: engine and k :: nat
  let ?st = "apply_update demo_outer \<lparr>upd_messages = [HumanMessage ''Why?'' None], upd_documents = None,
                                      upd_team_members = None, upd_next = None\<rparr>"
  let ?e = "eng\<lparr>recursion_limit := Suc k\<rparr>"
  have 1: "always ''Summarizer'' ?st = Inr (ToolCall ''route'' (Some [(''next'', ''Summarizer'')]) # [])"
    by (simp add: always_def route_to_def)
  have 2: "tc_args (ToolCall ''route'' (Some [(''next'', ''Summarizer'')])) = Some [(''next'', ''Summarizer'')]"
    by simp
  have 3: "map_of [(''next'', ''Summarizer'')] ''next'' = Some ''Summarizer''"
    by simp
  have 4: "''Summarizer'' \<notin> set [''VideoSearch'', ''CommentFinder''] \<union> {''FINISH''}"
          "''Summarizer'' \<notin> set [''Topic'', ''Sentiment''] \<union> {''FINISH''}"
          "''Summarizer'' \<notin> set [''Research team'', ''Analysis team''] \<union> {''FINISH''}"
    by simp_all
  have 5: "recursion_limit ?e = Suc k"
    by simp
  have 6: "py_repr ''Summarizer'' = [CHR 0x27] @ ''Summarizer'' @ [CHR 0x27]"
    by (simp add: py_repr_def repr_char_def Let_def)
  note t = unknown_route_is_fatal
            [where llm = "always ''Summarizer''" and st = ?st
               and tc = "ToolCall ''route'' (Some [(''next'', ''Summarizer'')])" and others = "[]"
               and a = "[(''next'', ''Summarizer'')]" and n = "''Summarizer''" and k = k
               and search = "plain_agent ''s''" and research = "plain_agent ''c''"
               and topic = "plain_agent ''t''" and sentiment = "plain_agent ''p''"
               and research_chain = "\<lambda>m. Inl IndexError" and analysis_chain = "\<lambda>i. Inl IndexError"
               and eng = ?e and checkpoint = demo_outer and question = "''Why?''"
               and sid = "''s1''", OF 1 2 3, unfolded 6]
  from t 1 3 4 5
  show "always ''Summarizer'' ?st = Inr (ToolCall ''route'' (Some [(''next'', ''Summarizer'')]) # [])
     \<and> map_of [(''next'', ''Summarizer'')] ''next'' = Some ''Summarizer''
     \<and> ''Summarizer'' \<notin> set [''VideoSearch'', ''CommentFinder''] \<union> {''FINISH''}
     \<and> ''Summarizer'' \<notin> set [''Topic'', ''Sentiment''] \<union> {''FINISH''}
     \<and> ''Summarizer'' \<notin> set [''Research team'', ''Analysis team''] \<union> {''FINISH''}
     \<and> recursion_limit ?e = Suc k
     \<and> snd (run (Suc k) (build_research_graph (plain_agent ''s'') (plain_agent ''c'') (always ''Summarizer''))
              ''ResearchSupervisor'' ?st)
         = Inl (KeyError ''Summarizer'')
     \<and> map fst (fst (run (Suc k)
                        (build_analysis_graph (plain_agent ''t'') (plain_agent ''p'') (always ''Summarizer''))
                        ''AnalysisSupervisor'' ?st))
         = [''AnalysisSupervisor'']
     \<and> execute_turn ?e
           (build_main_graph (always ''Summarizer'') (\<lambda>m. Inl IndexError) (\<lambda>i. Inl IndexError))
           demo_outer ''Why?'' ''s1''
         = ([Progress ''Starting analysis...'',
             ErrorEvent (''Error during analysis: '' @ [CHR 0x27] @ ''Summarizer'' @ [CHR 0x27])],
            Inl (KeyError ''Summarizer''))"
    by blast
qed

lemma join_graph_last:
  assumes "messages response \<noteq> []"
  shows "\<exists>u. join_graph response = Inr u \<and> upd_messages u = [last (messages response)]
           \<and> messages (apply_update outer u) = messages outer @ [last (messages response)]"
  using assms by (simp add: join_graph_def apply_update_def)

text \<open>
  C6, as amended. For every team run that the main graph starts from a non-empty outer
  log and that completes: the inner log is the entry message followed by the messages of
  the inner steps, the team node returns an update with exactly one message, the last
  entry of that inner log, and folding the update into the outer state appends exactly
  that message to the outer log. When an inner step produced a message, the appended
  message is the last message produced; when none did, it is the entry message, an
  unnamed message with the content of the outer log's last message.
\<close>

theorem team_exit_one_message:
  assumes "messages outer \<noteq> []"
  shows "(run limit g (entry_point g)
            (apply_update empty_state (enter_research_chain (content (last (messages outer)))))
          = (evs, Inr result) \<longrightarrow>
            messages result = HumanMessage (content (last (messages outer))) None
                                # concat (map (\<lambda>ev. upd_messages (snd ev)) evs)
            \<and> (\<exists>u. research_team_node (create_research_chain limit g) outer = Inr u
                  \<and> upd_messages u = [last (messages result)]
                  \<and> messages (apply_update outer u) = messages outer @ [last (messages result)])
            \<and> (concat (map (\<lambda>ev. upd_messages (snd ev)) evs) \<noteq> [] \<longrightarrow>
                  last (messages result) = last (concat (map (\<lambda>ev. upd_messages (snd ev)) evs)))
            \<and> (concat (map (\<lambda>ev. upd_messages (snd ev)) evs) = [] \<longrightarrow>
                  last (messages result) = HumanMessage (content (last (messages outer))) None))
       \<and> (run limit g' (entry_point g')
            (apply_update empty_state
               (enter_sentiment_chain
                  \<lparr>message = content (last (messages outer)),
                   input_documents = Some (case documents outer of None \<Rightarrow> [] | Some d \<Rightarrow> d)\<rparr>))
          = (evs', Inr result') \<longrightarrow>
            messages result' = HumanMessage (content (last (messages outer))) None
                                 # concat (map (\<lambda>ev. upd_messages (snd ev)) evs')
            \<and> (\<exists>u. get_messages_and_documents (create_analysis_chain limit g') outer = Inr u
                  \<and> upd_messages u = [last (messages result')]
                  \<and> messages (apply_update outer u) = messages outer @ [last (messages result')])
            \<and> (concat (map (\<lambda>ev. upd_messages (snd ev)) evs') \<noteq> [] \<longrightarrow>
                  last (messages result') = last (concat (map (\<lambda>ev. upd_messages (snd ev)) evs')))
            \<and> (concat (map (\<lambda>ev. upd_messages (snd ev)) evs') = [] \<longrightarrow>
                  last (messages result') = HumanMessage (content (last (messages outer))) None))"
proof (intro conjI impI)
  let ?c = "content (last (messages outer))"
  let ?p = "concat (map (\<lambda>ev. upd_messages (snd ev)) evs)"
  assume r: "run limit g (entry_point g) (apply_update empty_state (enter_research_chain ?c))
               = (evs, Inr result)"
  show m: "messages result = HumanMessage ?c None # ?p"
    using run_messages [OF r]
    by (simp add: apply_update_def empty_state_def enter_research_chain_def)
  let ?response = "\<lparr>messages = messages result,
                     documents = Some (case documents result of None \<Rightarrow> [] | Some d \<Rightarrow> d),
                     team_members = None, nxt = None\<rparr>"
  have n: "research_team_node (create_research_chain limit g) outer = join_graph ?response"
    using assms r
    by (simp add: research_team_node_def get_last_message_def create_research_chain_def
          research_chain_with_docs_def invoke_def enter_research_chain_def split: option.splits)
  have "messages ?response \<noteq> []" using m by simp
  from join_graph_last [OF this, of outer] n
  show "\<exists>u. research_team_node (create_research_chain limit g) outer = Inr u
                  \<and> upd_messages u = [last (messages result)]
                  \<and> messages (apply_update outer u) = messages outer @ [last (messages result)]"
    by simp
  {
    assume "?p \<noteq> []"
    then show "last (messages result) = last ?p" by (simp add: m del: concat_eq_Nil_conv)
  }
  {
    assume "?p = []"
    then show "last (messages result) = HumanMessage ?c None" by (simp add: m del: concat_eq_Nil_conv)
  }
next
  let ?c = "content (last (messages outer))"
  let ?p = "concat (map (\<lambda>ev. upd_messages (snd ev)) evs')"
  let ?inp = "enter_sentiment_chain
                  \<lparr>message = ?c,
                   input_documents = Some (case documents outer of None \<Rightarrow> [] | Some d \<Rightarrow> d)\<rparr>"
  assume r: "run limit g' (entry_point g') (apply_update empty_state ?inp) = (evs', Inr result')"
  show m: "messages result' = HumanMessage ?c None # ?p"
    using run_messages [OF r]
    by (simp add: apply_update_def empty_state_def enter_sentiment_chain_def)
  have n: "get_messages_and_documents (create_analysis_chain limit g') outer = join_graph result'"
    using assms r
    by (simp add: get_messages_and_documents_def create_analysis_chain_def invoke_def)
  have "messages result' \<noteq> []" using m by simp
  from join_graph_last [OF this, of outer] n
  show "\<exists>u. get_messages_and_documents (create_analysis_chain limit g') outer = Inr u
                  \<and> upd_messages u = [last (messages result')]
                  \<and> messages (apply_update outer u) = messages outer @ [last (messages result')]"
    by simp
  {
    assume "?p \<noteq> []"
    then show "last (messages result') = last ?p" by (simp add: m del: concat_eq_Nil_conv)
  }
  {
    assume "?p = []"
    then show "last (messages result') = HumanMessage ?c None" by (simp add: m del: concat_eq_Nil_conv)
  }
qed

lemma demo_research_run:
  "run (Suc k) (build_research_graph (plain_agent ''s'') (plain_agent ''c'') (always ''FINISH''))
       (entry_point (build_research_graph (plain_agent ''s'') (plain_agent ''c'') (always ''FINISH'')))
       (apply_update empty_state (enter_research_chain (content (last (messages demo_outer)))))
     = ([(''ResearchSupervisor'',
          \<lparr>upd_messages = [], upd_documents = None, upd_team_members = None,
           upd_next = Some ''FINISH''\<rparr>)],
        Inr \<lparr>messages = [HumanMessage ''Found one comment.'' None], documents = None,
             team_members = None, nxt = Some ''FINISH''\<rparr>)"
proof -
  let ?g = "build_research_graph (plain_agent ''s'') (plain_agent ''c'') (always ''FINISH'')"
  have "run (Suc k) ?g ''ResearchSupervisor''
          (apply_update empty_state (enter_research_chain (content (last (messages demo_outer)))))
        = ([(''ResearchSupervisor'',
             \<lparr>upd_messages = [], upd_documents = None, upd_team_members = None,
              upd_next = Some ''FINISH''\<rparr>)],
           Inr ((apply_update empty_state (enter_research_chain (content (last (messages demo_outer)))))
                  \<lparr>nxt := Some ''FINISH''\<rparr>))"
    by (rule finish_at_once) (simp_all only: research_graph_parts)
  then show ?thesis
    by (simp add: research_graph_parts apply_update_def empty_state_def enter_research_chain_def
          demo_outer_def del: run.simps)
qed

text \<open>
  C6 as stated fails: when the Research team's supervisor finishes at once, no inner
  step produced a message, and yet the team node appends one message to the outer log,
  an unnamed copy of the outer log's last message.
\<close>

theorem team_exit_one_message_counterexample:
  "\<forall>k.
     run (Suc k) (build_research_graph (plain_agent ''s'') (plain_agent ''c'') (always ''FINISH''))
       (entry_point (build_research_graph (plain_agent ''s'') (plain_agent ''c'') (always ''FINISH'')))
       (apply_update empty_state (enter_research_chain (content (last (messages demo_outer)))))
     = ([(''ResearchSupervisor'',
          \<lparr>upd_messages = [], upd_documents = None, upd_team_members = None,
           upd_next = Some ''FINISH''\<rparr>)],
        Inr \<lparr>messages = [HumanMessage ''Found one comment.'' None], documents = None,
             team_members = None, nxt = Some ''FINISH''\<rparr>)
     \<and> concat (map (\<lambda>ev. upd_messages (snd ev))
                 [(''ResearchSupervisor'',
                   \<lparr>upd_messages = [], upd_documents = None, upd_team_members = None,
                    upd_next = Some ''FINISH''\<rparr>)]) = []
     \<and> research_team_node
         (create_research_chain (Suc k)
            (build_research_graph (plain_agent ''s'') (plain_agent ''c'') (always ''FINISH'')))
         demo_outer
       = Inr \<lparr>upd_messages = [HumanMessage ''Found one comment.'' None], upd_documents = None,
              upd_team_members = None, upd_next = None\<rparr>
     \<and> last (messages demo_outer) = HumanMessage ''Found one comment.'' (Some ''CommentFinder'')"
proof (intro allI conjI)
  fix k
  show "run (Suc k) (build_research_graph (plain_agent ''s'') (plain_agent ''c'') (always ''FINISH''))
       (entry_point (build_research_graph (plain_agent ''s'') (plain_agent ''c'') (always ''FINISH'')))
       (apply_update empty_state (enter_research_chain (content (last (messages demo_outer)))))
     = ([(''ResearchSupervisor'',
          \<lparr>upd_messages = [], upd_documents = None, upd_team_members = None,
           upd_next = Some ''FINISH''\<rparr>)],
        Inr \<lparr>messages = [HumanMessage ''Found one comment.'' None], documents = None,
             team_members = None, nxt = Some ''FINISH''\<rparr>)"
    by (rule demo_research_run)
  show "concat (map (\<lambda>ev. upd_messages (snd ev))
                 [(''ResearchSupervisor'',
                   \<lparr>upd_messages = [], upd_documents = None, upd_team_members = None,
                    upd_next = Some ''FINISH''\<rparr>)]) = []"
    by simp
  have c: "content (last (messages demo_outer)) = ''Found one comment.''"
    and ne: "messages demo_outer \<noteq> []"
    by (simp_all add: demo_outer_def)
  show "research_team_node
         (create_research_chain (Suc k)
            (build_research_graph (plain_agent ''s'') (plain_agent ''c'') (always ''FINISH'')))
         demo_outer
       = Inr \<lparr>upd_messages = [HumanMessage ''Found one comment.'' None], upd_documents = None,
              upd_team_members = None, upd_next = None\<rparr>"
    using ne demo_research_run [of k]
    by (simp add: research_team_node_def get_last_message_def create_research_chain_def
          research_chain_with_docs_def invoke_def join_graph_def enter_research_chain_def c
          del: run.simps)
  show "last (messages demo_outer) = HumanMessage ''Found one comment.'' (Some ''CommentFinder'')"
    by (simp add: demo_outer_def)
qed

lemma run_three_steps:
  assumes "step g cur st = Inr (u1, st1, Inr (Node n1))"
      and "step g n1 st1 = Inr (u2, st2, Inr (Node n2))"
      and "step g n2 st2 = Inr (u3, st3, Inr END)"
      and "3 \<le> k"
  shows "run k g cur st = ([(cur, u1), (n1, u2), (n2, u3)], Inr st3)"
proof -
  from assms(4) obtain k' where "k = Suc (Suc (Suc k'))"
    by (metis Suc_le_D Suc_le_mono numeral_3_eq_3)
  with assms(1,2,3) show ?thesis by simp
qed

lemma demo_sentiment_run:
  "run 25 (build_analysis_graph (plain_agent ''t'') (plain_agent ''positive'') (once_then_finish ''Sentiment''))
       (entry_point (build_analysis_graph (plain_agent ''t'') (plain_agent ''positive'')
                       (once_then_finish ''Sentiment'')))
       (apply_update empty_state
          (enter_sentiment_chain
             \<lparr>message = content (last (messages demo_outer)),
              input_documents = Some (case documents demo_outer of None \<Rightarrow> [] | Some d \<Rightarrow> d)\<rparr>))
     = ([(''AnalysisSupervisor'',
          \<lparr>upd_messages = [], upd_documents = None, upd_team_members = None,
           upd_next = Some ''Sentiment''\<rparr>),
         (''Sentiment'',
          \<lparr>upd_messages = [HumanMessage ''positive'' (Some ''Sentiment'')],
           upd_documents = Some [demo_doc], upd_team_members = None, upd_next = None\<rparr>),
         (''AnalysisSupervisor'',
          \<lparr>upd_messages = [], upd_documents = None, upd_team_members = None,
           upd_next = Some ''FINISH''\<rparr>)],
        Inr \<lparr>messages = [HumanMessage ''Found one comment.'' None,
                         HumanMessage ''positive'' (Some ''Sentiment'')],
             documents = Some [demo_doc], team_members = Some ''Topic, Sentiment'',
             nxt = Some ''FINISH''\<rparr>)"
proof -
  let ?g = "build_analysis_graph (plain_agent ''t'') (plain_agent ''positive'') (once_then_finish ''Sentiment'')"
  let ?st0 = "\<lparr>messages = [HumanMessage ''Found one comment.'' None], documents = Some [demo_doc],
               team_members = Some ''Topic, Sentiment'', nxt = None\<rparr>"
  let ?st1 = "?st0\<lparr>nxt := Some ''Sentiment''\<rparr>"
  let ?u2 = "\<lparr>upd_messages = [HumanMessage ''positive'' (Some ''Sentiment'')],
             upd_documents = Some [demo_doc], upd_team_members = None, upd_next = None\<rparr>"
  let ?st2 = "\<lparr>messages = [HumanMessage ''Found one comment.'' None,
                         HumanMessage ''positive'' (Some ''Sentiment'')],
             documents = Some [demo_doc], team_members = Some ''Topic, Sentiment'',
             nxt = Some ''Sentiment''\<rparr>"
  have e: "apply_update empty_state
          (enter_sentiment_chain
             \<lparr>message = content (last (messages demo_outer)),
              input_documents = Some (case documents demo_outer of None \<Rightarrow> [] | Some d \<Rightarrow> d)\<rparr>) = ?st0"
    by (simp add: apply_update_def empty_state_def enter_sentiment_chain_def demo_outer_def)
  have 1: "step ?g ''AnalysisSupervisor'' ?st0 =
             Inr (\<lparr>upd_messages = [], upd_documents = None, upd_team_members = None,
                   upd_next = Some ''Sentiment''\<rparr>, ?st1, Inr (Node ''Sentiment''))"
    by (simp add: step_def route_def analysis_graph_parts create_team_supervisor_def extract_next_def
          once_then_finish_def route_to_def apply_update_def)
  have 2: "step ?g ''Sentiment'' ?st1 = Inr (?u2, ?st2, Inr (Node ''AnalysisSupervisor''))"
    by (simp add: step_def route_def analysis_graph_parts agent_node_def agent_invoke_def
          plain_agent_def apply_update_def)
  have 3: "step ?g ''AnalysisSupervisor'' ?st2 =
             Inr (\<lparr>upd_messages = [], upd_documents = None, upd_team_members = None,
                   upd_next = Some ''FINISH''\<rparr>, ?st2\<lparr>nxt := Some ''FINISH''\<rparr>, Inr END)"
    by (simp add: step_def route_def analysis_graph_parts create_team_supervisor_def extract_next_def
          once_then_finish_def route_to_def apply_update_def)
  have "run 25 ?g ''AnalysisSupervisor'' ?st0 =
          ([(''AnalysisSupervisor'',
             \<lparr>upd_messages = [], upd_documents = None, upd_team_members = None,
              upd_next = Some ''Sentiment''\<rparr>),
            (''Sentiment'', ?u2),
            (''AnalysisSupervisor'',
             \<lparr>upd_messages = [], upd_documents = None, upd_team_members = None,
              upd_next = Some ''FINISH''\<rparr>)],
           Inr (?st2\<lparr>nxt := Some ''FINISH''\<rparr>))"
    by (rule run_three_steps [OF 1 2 3]) simp
  then show ?thesis
    unfolding e by (simp add: analysis_graph_parts del: run.simps)
qed

theorem team_exit_one_message_witness:
  "messages demo_outer \<noteq> []
   \<and> (\<exists>u. research_team_node
             (create_research_chain 25
                (build_research_graph (plain_agent ''s'') (plain_agent ''c'') (always ''FINISH'')))
             demo_outer = Inr u
          \<and> upd_messages u = [HumanMessage ''Found one comment.'' None]
          \<and> messages (apply_update demo_outer u)
              = messages demo_outer @ [HumanMessage ''Found one comment.'' None])
   \<and> (\<exists>u. get_messages_and_documents
             (create_analysis_chain 25
                (build_analysis_graph (plain_agent ''t'') (plain_agent ''positive'')
                   (once_then_finish ''Sentiment'')))
             demo_outer = Inr u
          \<and> upd_messages u = [HumanMessage ''positive'' (Some ''Sentiment'')]
          \<and> messages (apply_update demo_outer u)
              = messages demo_outer @ [HumanMessage ''positive'' (Some ''Sentiment'')])"
proof -
  have ne: "messages demo_outer \<noteq> []" by (simp add: demo_outer_def)
  have r: "run 25 (build_research_graph (plain_agent ''s'') (plain_agent ''c'') (always ''FINISH''))
       (entry_point (build_research_graph (plain_agent ''s'') (plain_agent ''c'') (always ''FINISH'')))
       (apply_update empty_state (enter_research_chain (content (last (messages demo_outer)))))
     = ([(''ResearchSupervisor'',
          \<lparr>upd_messages = [], upd_documents = None, upd_team_members = None,
           upd_next = Some ''FINISH''\<rparr>)],
        Inr \<lparr>messages = [HumanMessage ''Found one comment.'' None], documents = None,
             team_members = None, nxt = Some ''FINISH''\<rparr>)"
    unfolding run_25 by (rule demo_research_run)
  note t = team_exit_one_message [OF ne, where limit = 25
             and g = "build_research_graph (plain_agent ''s'') (plain_agent ''c'') (always ''FINISH'')"
             and g' = "build_analysis_graph (plain_agent ''t'') (plain_agent ''positive'')
                         (once_then_finish ''Sentiment'')"]
  from t [THEN conjunct1, rule_format, OF r, THEN conjunct2, THEN conjunct1]
  have a: "\<exists>u. research_team_node
             (create_research_chain 25
                (build_research_graph (plain_agent ''s'') (plain_agent ''c'') (always ''FINISH'')))
             demo_outer = Inr u
          \<and> upd_messages u = [HumanMessage ''Found one comment.'' None]
          \<and> messages (apply_update demo_outer u)
              = messages demo_outer @ [HumanMessage ''Found one comment.'' None]"
    by simp
  from t [THEN conjunct2, rule_format, OF demo_sentiment_run, THEN conjunct2, THEN conjunct1]
  have b: "\<exists>u. get_messages_and_documents
             (create_analysis_chain 25
                (build_analysis_graph (plain_agent ''t'') (plain_agent ''positive'')
                   (once_then_finish ''Sentiment'')))
             demo_outer = Inr u
          \<and> upd_messages u = [HumanMessage ''positive'' (Some ''Sentiment'')]
          \<and> messages (apply_update demo_outer u)
              = messages demo_outer @ [HumanMessage ''positive'' (Some ''Sentiment'')]"
    by simp
  from ne a b show ?thesis by blast
qed

lemma agent_node_update:
  assumes "agent_node state agent nm = Inr u"
  shows "upd_documents u = Some (case documents state of None \<Rightarrow> [] | Some d \<Rightarrow> d)"
  using assms
  by (auto simp: agent_node_def agent_invoke_def split: sum.splits)

lemma analysis_step_documents:
  assumes "step (build_analysis_graph topic sentiment llm) cur st = Inr (u, st', r)"
      and "documents st = Some d"
  shows "documents st' = Some d"
proof -
  let ?g = "build_analysis_graph topic sentiment llm"
  from assms(1) obtain f where f: "map_of (nodes ?g) cur = Some f" "f st = Inr u"
    and st': "st' = apply_update st u"
    by (auto simp: step_def split: option.splits sum.splits)
  from f(1) consider
      (topic) "f = (\<lambda>state. agent_node state topic ''Topic'')"
    | (sentiment) "f = (\<lambda>state. agent_node state sentiment ''Sentiment'')"
    | (supervisor) "f = create_team_supervisor llm [''Topic'', ''Sentiment'']"
    by (auto simp: build_analysis_graph_def split: if_splits)
  then have "upd_documents u = None \<or> upd_documents u = Some d"
  proof cases
    case topic
    with f(2) assms(2) agent_node_update [of st topic "''Topic''" u] show ?thesis by simp
  next
    case sentiment
    with f(2) assms(2) agent_node_update [of st sentiment "''Sentiment''" u] show ?thesis by simp
  next
    case supervisor
    with f(2) show ?thesis
      by (auto simp: create_team_supervisor_def split: sum.splits router_output.splits)
  qed
  with st' assms(2) show ?thesis by (auto simp: apply_update_def)
qed

lemma analysis_run_documents:
  "run k (build_analysis_graph topic sentiment llm) cur st = (evs, Inr st') \<Longrightarrow>
     documents st = Some d \<Longrightarrow> documents st' = Some d"
proof (induction k arbitrary: cur st evs)
  case 0
  then show ?case by simp
next
  case (Suc k)
  let ?g = "build_analysis_graph topic sentiment llm"
  show ?case
  proof (cases rule: run_Suc_cases [of ?g cur st k])
    case (node_fails e)
    with Suc.prems show ?thesis by simp
  next
    case (route_fails u st1 e)
    with Suc.prems show ?thesis by simp
  next
    case (ends u st1)
    with Suc.prems analysis_step_documents [OF ends(1)] show ?thesis by simp
  next
    case (goes_on u st1 n)
    have d: "documents st1 = Some d"
      using analysis_step_documents [OF goes_on(1)] Suc.prems(2) .
    from goes_on Suc.prems(1) have "run k ?g n st1 = (fst (run k ?g n st1), Inr st')"
      by (metis prod.collapse snd_conv)
    from Suc.IH [OF this d] show ?thesis .
  qed
qed

text \<open>
  C3. In a team state that carries documents, a node built with \<open>agent_node\<close> hands
  those very documents back in its update, since the executor's result carries the keys
  of the state it was invoked with; so the state's documents after the node are what they
  were before. The node built with \<open>agent_node_with_docs\<close> keeps the state's documents
  whenever it extracts none from the intermediate steps. In particular every run of the
  Analysis team, whatever its supervisor decides and its Topic and Sentiment agents
  answer, ends with the documents it was entered with.
\<close>

theorem agent_node_keeps_documents:
  assumes "documents state = Some d"
  shows "(agent_node state agent nm = Inr u \<longrightarrow>
            upd_documents u = Some d \<and> documents (apply_update state u) = documents state)
       \<and> (agent_node_with_docs state agent nm = Inr u'
            \<and> (\<forall>out. agent state = Inr out \<and> nm = ''CommentFinder'' \<longrightarrow>
                   scan_steps [] (intermediate_steps out) = []) \<longrightarrow>
            upd_documents u' = Some d \<and> documents (apply_update state u') = documents state)
       \<and> (run k (build_analysis_graph topic sentiment llm) cur state = (evs, Inr state') \<longrightarrow>
            documents state' = documents state)"
proof (intro conjI impI)
  assume a: "agent_node state agent nm = Inr u"
  show 1: "upd_documents u = Some d"
    using agent_node_update [OF a] assms by simp
  show "documents (apply_update state u) = documents state"
    using 1 assms by (simp add: apply_update_def)
next
  assume a: "agent_node_with_docs state agent nm = Inr u'
            \<and> (\<forall>out. agent state = Inr out \<and> nm = ''CommentFinder'' \<longrightarrow>
                   scan_steps [] (intermediate_steps out) = [])"
  show 2: "upd_documents u' = Some d"
    using a assms
    by (auto simp: agent_node_with_docs_def agent_invoke_def Let_def split: sum.splits if_splits)
  show "documents (apply_update state u') = documents state"
    using 2 assms by (simp add: apply_update_def)
next
  assume "run k (build_analysis_graph topic sentiment llm) cur state = (evs, Inr state')"
  from analysis_run_documents [OF this assms] assms
  show "documents state' = documents state" by simp
qed

theorem agent_node_keeps_documents_witness:
  "documents demo_team_state = Some [demo_doc]
   \<and> agent_node demo_team_state (plain_agent ''positive'') ''Sentiment''
       = Inr \<lparr>upd_messages = [HumanMessage ''positive'' (Some ''Sentiment'')],
              upd_documents = Some [demo_doc], upd_team_members = None, upd_next = None\<rparr>
   \<and> documents (apply_update demo_team_state
        \<lparr>upd_messages = [HumanMessage ''positive'' (Some ''Sentiment'')],
         upd_documents = Some [demo_doc], upd_team_members = None, upd_next = None\<rparr>)
       = documents demo_team_state
   \<and> agent_node_with_docs demo_team_state (plain_agent ''none found'') ''CommentFinder''
       = Inr \<lparr>upd_messages = [HumanMessage ''none found'' (Some ''CommentFinder'')],
              upd_documents = Some [demo_doc], upd_team_members = None, upd_next = None\<rparr>
   \<and> plain_agent ''none found'' demo_team_state
       = Inr \<lparr>agent_output = ''none found'', intermediate_steps = []\<rparr>
   \<and> scan_steps [] [] = []
   \<and> documents (apply_update demo_team_state
        \<lparr>upd_messages = [HumanMessage ''none found'' (Some ''CommentFinder'')],
         upd_documents = Some [demo_doc], upd_team_members = None, upd_next = None\<rparr>)
       = documents demo_team_state
   \<and> documents
        \<lparr>messages = [HumanMessage ''Found one comment.'' None,
                     HumanMessage ''positive'' (Some ''Sentiment'')],
         documents = Some [demo_doc], team_members = Some ''Topic, Sentiment'',
         nxt = Some ''FINISH''\<rparr>
       = documents (apply_update empty_state
          (enter_sentiment_chain
             \<lparr>message = content (last (messages demo_outer)),
              input_documents = Some (case documents demo_outer of None \<Rightarrow> [] | Some d \<Rightarrow> d)\<rparr>))"
proof -
  let ?u = "\<lparr>upd_messages = [HumanMessage ''positive'' (Some ''Sentiment'')],
              upd_documents = Some [demo_doc], upd_team_members = None, upd_next = None\<rparr>"
  let ?u' = "\<lparr>upd_messages = [HumanMessage ''none found'' (Some ''CommentFinder'')],
              upd_documents = Some [demo_doc], upd_team_members = None, upd_next = None\<rparr>"
  let ?entry = "apply_update empty_state
          (enter_sentiment_chain
             \<lparr>message = content (last (messages demo_outer)),
              input_documents = Some (case documents demo_outer of None \<Rightarrow> [] | Some d \<Rightarrow> d)\<rparr>)"
  have d: "documents demo_team_state = Some [demo_doc]"
    by (simp add: demo_team_state_def)
  have de: "documents ?entry = Some [demo_doc]"
    by (simp add: apply_update_def empty_state_def enter_sentiment_chain_def demo_outer_def)
  have 1: "agent_node demo_team_state (plain_agent ''positive'') ''Sentiment'' = Inr ?u"
    by (simp add: agent_node_def agent_invoke_def plain_agent_def demo_team_state_def)
  have 2: "agent_node_with_docs demo_team_state (plain_agent ''none found'') ''CommentFinder'' = Inr ?u'"
    by (simp add: agent_node_with_docs_def agent_invoke_def plain_agent_def demo_team_state_def)
  have p: "plain_agent ''none found'' demo_team_state
             = Inr \<lparr>agent_output = ''none found'', intermediate_steps = []\<rparr>"
    by (simp add: plain_agent_def)
  have s: "\<forall>out. plain_agent ''none found'' demo_team_state = Inr out \<and> ''CommentFinder'' = ''CommentFinder''
             \<longrightarrow> scan_steps [] (intermediate_steps out) = []"
    by (simp add: plain_agent_def)
  note t = agent_node_keeps_documents
             [OF d, where agent = "plain_agent ''positive''" and nm = "''Sentiment''" and u = ?u]
  note t' = agent_node_keeps_documents
             [OF d, where agent = "plain_agent ''none found''" and nm = "''CommentFinder''" and u' = ?u']
  note t'' = agent_node_keeps_documents
             [OF de, where topic = "plain_agent ''t''" and sentiment = "plain_agent ''positive''"
                and llm = "once_then_finish ''Sentiment''" and k = 25
                and cur = "entry_point (build_analysis_graph (plain_agent ''t'') (plain_agent ''positive'')
                             (once_then_finish ''Sentiment''))",
              THEN conjunct2, THEN conjunct2, rule_format, OF demo_sentiment_run]
  have a: "documents (apply_update demo_team_state ?u) = documents demo_team_state"
    using t [THEN conjunct1] 1 by blast
  have b: "documents (apply_update demo_team_state ?u') = documents demo_team_state"
    using t' [THEN conjunct2, THEN conjunct1] 2 s by blast
  have c: "scan_steps [] [] = ([] :: document list)" by simp
  show ?thesis
    by (intro conjI) (rule d 1 a 2 p c b t'')+
qed



lemma execute_turn_log:
  assumes "execute_turn eng g checkpoint question sid = (evs, Inr final_state)"
  shows "\<exists>first_pass second_pass.
           messages final_state
             = messages checkpoint @ [HumanMessage question None] @ first_pass
                 @ [HumanMessage question None] @ second_pass"
proof -
  let ?inp = "\<lparr>upd_messages = [HumanMessage question None], upd_documents = None,
               upd_team_members = None, upd_next = None\<rparr>"
  obtain e1 r1 where 1: "run (recursion_limit eng) g (entry_point g) (apply_update checkpoint ?inp) = (e1, r1)"
    by (cases "run (recursion_limit eng) g (entry_point g) (apply_update checkpoint ?inp)")
  from assms 1 obtain streamed where s: "r1 = Inr streamed"
    by (cases r1)
       (auto simp: execute_turn_def invoke_thread_def Let_def split: prod.splits option.splits)
  obtain e2 r2 where 2: "run (recursion_limit eng) g (entry_point g) (apply_update streamed ?inp) = (e2, r2)"
    by (cases "run (recursion_limit eng) g (entry_point g) (apply_update streamed ?inp)")
  from assms 1 s 2 have f: "r2 = Inr final_state"
    by (cases r2)
       (auto simp: execute_turn_def invoke_thread_def Let_def split: prod.splits option.splits)
  have a: "messages streamed = messages checkpoint @ [HumanMessage question None]
             @ concat (map (\<lambda>ev. upd_messages (snd ev)) e1)"
    using run_messages [OF 1 [unfolded s]] by (simp add: apply_update_def)
  have b: "messages final_state = messages streamed @ [HumanMessage question None]
             @ concat (map (\<lambda>ev. upd_messages (snd ev)) e2)"
    using run_messages [OF 2 [unfolded f]] by (simp add: apply_update_def)
  from a b show ?thesis by auto
qed

lemma main_finish_at_once_any:
  "run (Suc k) (build_main_graph (always ''FINISH'') rc ac) ''SuperSupervisor'' st =
     ([(''SuperSupervisor'',
        \<lparr>upd_messages = [], upd_documents = None, upd_team_members = None,
         upd_next = Some ''FINISH''\<rparr>)],
      Inr (st\<lparr>nxt := Some ''FINISH''\<rparr>))"
  by (rule finish_at_once) (simp_all only: main_graph_parts)

text \<open>
  C7 does not hold of the driver. On a thread whose checkpoint holds two messages, a
  follow-up turn in which the supervisor finishes at once generates no message, yet the
  thread holds the question twice afterwards: the streaming pass appends it, and the
  final pass, invoked with the same input on the same thread, appends it again and runs
  the graph again. This is so under every setting of the engine that allows a step.
\<close>

theorem final_pass_appends_question_again:
  "execute_turn (eng\<lparr>recursion_limit := Suc k\<rparr>) (finishing_system (eng\<lparr>recursion_limit := Suc k\<rparr>))
       demo_outer ''Why?'' ''s1''
     = ([Progress ''Starting analysis...'',
         Final ''Why?'' (Some [(''great video'', [(''type'', ''comment'')])]) ''s1''],
        Inr \<lparr>messages = messages demo_outer @ [HumanMessage ''Why?'' None, HumanMessage ''Why?'' None],
             documents = Some [demo_doc], team_members = None, nxt = Some ''FINISH''\<rparr>)"
  by (simp add: execute_turn_def invoke_thread_def finishing_system_def main_graph_of_def
        demo_components_def main_graph_parts main_finish_at_once_any apply_update_def
        is_empty_update_def demo_outer_def demo_doc_def format_progress_message_def
        format_final_response_def del: run.simps)



















end
